theory Spec2Isabelle
  imports Complex_Main "HOL-Library.Sublist" "HOL-Library.Multiset"
begin

section \<open>JavaScript values, requests and responses\<close>

text \<open>
  The server is an Express application (\<^verbatim>\<open>src/src/server/server3.js\<close> and the second
  variant \<^verbatim>\<open>src/unnamed/part_000\<close>). A request body is what \<^verbatim>\<open>express.json()\<close> hands to
  the route: a parsed JSON object. Its properties are JavaScript values; a property that
  is absent reads as \<^verbatim>\<open>undefined\<close>. Numbers are carried by their (finite) value.
\<close>

datatype jsval =
    Undefined
  | Null
  | Bool bool
  | Num rat
  | Str string
  | Arr "jsval list"
  | Obj "(string \<times> jsval) list"

text \<open>JavaScript's ToBoolean, as used by \<^verbatim>\<open>!question\<close> and \<^verbatim>\<open>clientId ? ... : ...\<close>.\<close>

fun truthy :: "jsval \<Rightarrow> bool" where
  "truthy Undefined = False"
| "truthy Null = False"
| "truthy (Bool b) = b"
| "truthy (Num r) = (r \<noteq> 0)"
| "truthy (Str s) = (s \<noteq> [])"
| "truthy (Arr _) = True"
| "truthy (Obj _) = True"

type_synonym js_object = "(string \<times> jsval) list"

text \<open>Property read \<^verbatim>\<open>obj.key\<close> (and each name of a destructuring pattern).\<close>

definition get_prop :: "js_object \<Rightarrow> string \<Rightarrow> jsval" where
  "get_prop obj key = (case map_of obj key of None \<Rightarrow> Undefined | Some v \<Rightarrow> v)"

text \<open>A thrown \<^verbatim>\<open>Error\<close>: the properties the handlers and the console can read.\<close>

record js_error =
  err_name :: string
  err_message :: string
  err_stack :: string

subsection \<open>The debate schema\<close>

text \<open>
  \<^verbatim>\<open>debateSchema\<close>: \<^verbatim>\<open>clientId\<close>, \<^verbatim>\<open>debateTopic\<close> and \<^verbatim>\<open>userRole\<close> are required strings;
  the fields of a chat turn are plain \<^verbatim>\<open>String\<close> paths without \<^verbatim>\<open>required\<close>, so a
  stored turn may lack them (\<^verbatim>\<open>undefined\<close>) or hold \<^verbatim>\<open>null\<close>. Dates are milliseconds.
\<close>

datatype js_string = SUndefined | SNull | SVal string

record chat_turn =
  speaker :: js_string
  content :: js_string
  timestamp :: int

record uploaded_file =
  filename :: js_string
  data :: "nat list"
  mimetype :: js_string

record debate =
  ident :: string
  clientId :: string
  debateTopic :: string
  userRole :: string
  chatHistory :: "chat_turn list"
  adjudicationResult :: jsval
  uploadedFiles :: "uploaded_file list"
  createdAt :: int

subsection \<open>Responses\<close>

text \<open>
  \<^verbatim>\<open>res.status(n).json({...})\<close>: the status (200 when \<^verbatim>\<open>res.json\<close> is called alone) and
  the properties of the object literal, in the order they are written.
\<close>

datatype payload =
    PBool bool
  | PStr string
  | PDebate debate
  | PDebates "debate list"

record response =
  status :: nat
  body :: "(string \<times> payload) list"

subsection \<open>Collaborators and the calls made to them\<close>

text \<open>
  The filter object handed to \<^verbatim>\<open>Debate.find\<close> by the chat route: \<^verbatim>\<open>{}\<close> or
  \<^verbatim>\<open>{ clientId }\<close>.
\<close>

datatype query = EmptyFilter | ByClientId jsval

text \<open>The vector store class whose \<^verbatim>\<open>fromDocuments\<close> a variant calls, with its embedder.\<close>

datatype backend = MemoryVectorStore_FastEmbed | FaissStore_HuggingFace

text \<open>
  Every call a handler makes to code outside the two source files (mongoose, the
  LangChain splitter, embedder, vector store, retriever and chat model, and the console),
  with its arguments. A handler returns its response together with the calls it made, in
  order.
\<close>

datatype event =
    StoreFind query
  | StoreList
  | StoreFindById string
  | StoreSave js_object
  | SplitCall nat nat "string list"
  | EmbedAndIndex backend "string list"
  | Retrieve nat jsval
  | Generate string jsval
  | ConsoleError string js_error

text \<open>
  What those calls answer is not decided by the two source files; it is a parameter. Each
  call either returns or throws. \<^verbatim>\<open>'ix\<close> is the type of a built vector store.
  \<^item> \<open>Debate_find q\<close>: \<^verbatim>\<open>Debate.find(q).sort({ createdAt: -1 })\<close>;
  \<^item> \<open>Debate_list\<close>: \<^verbatim>\<open>Debate.find({}, projection).sort({ createdAt: -1 })\<close>;
  \<^item> \<open>ObjectId_isValid\<close>: \<^verbatim>\<open>mongoose.Types.ObjectId.isValid\<close>;
  \<^item> \<open>Debate_findById\<close>: \<^verbatim>\<open>Debate.findById\<close>, \<open>None\<close> for \<^verbatim>\<open>null\<close>;
  \<^item> \<open>Debate_save\<close>: \<^verbatim>\<open>new Debate(body).save()\<close>;
  \<^item> \<open>createDocuments size overlap texts\<close>: the page contents of
    \<^verbatim>\<open>new RecursiveCharacterTextSplitter({chunkSize, chunkOverlap}).createDocuments(texts)\<close>;
  \<^item> \<open>fromDocuments b docs\<close>: \<^verbatim>\<open>Store.fromDocuments(docs, embeddings)\<close> of backend \<open>b\<close>;
  \<^item> \<open>retrieve ix k input\<close>: \<^verbatim>\<open>ix.asRetriever({ k })\<close> invoked on \<open>input\<close>, page contents;
  \<^item> \<open>formatDocumentsAsString\<close>: the LangChain helper of that name;
  \<^item> \<open>generate context question\<close>: the fixed prompt template filled with \<open>context\<close> and
    \<open>question\<close>, sent to the chat model, read by \<^verbatim>\<open>StringOutputParser\<close>.
\<close>

record 'ix env =
  Debate_find :: "query \<Rightarrow> js_error + debate list"
  Debate_list :: "js_error + debate list"
  ObjectId_isValid :: "string \<Rightarrow> bool"
  Debate_findById :: "string \<Rightarrow> js_error + debate option"
  Debate_save :: "js_object \<Rightarrow> js_error + debate"
  createDocuments :: "nat \<Rightarrow> nat \<Rightarrow> string list \<Rightarrow> js_error + string list"
  fromDocuments :: "backend \<Rightarrow> string list \<Rightarrow> js_error + 'ix"
  retrieve :: "'ix \<Rightarrow> nat \<Rightarrow> jsval \<Rightarrow> js_error + string list"
  formatDocumentsAsString :: "string list \<Rightarrow> string"
  generate :: "string \<Rightarrow> jsval \<Rightarrow> js_error + string"

text \<open>
  The body of a \<^verbatim>\<open>try\<close> block: it ends with a response (\<open>Inr\<close>) or with a thrown error
  (\<open>Inl\<close>), after the calls listed.
\<close>

type_synonym 'a run = "(js_error + 'a) \<times> event list"

definition call :: "event \<Rightarrow> js_error + 'a \<Rightarrow> 'a run" where
  "call ev result = (result, [ev])"

definition finish :: "'a \<Rightarrow> 'a run" where
  "finish x = (Inr x, [])"

definition throw :: "js_error \<Rightarrow> 'a run" where
  "throw e = (Inl e, [])"

definition await :: "'a run \<Rightarrow> ('a \<Rightarrow> 'b run) \<Rightarrow> 'b run" where
  "await m f =
     (case m of
        (Inl e, t) \<Rightarrow> (Inl e, t)
      | (Inr x, t) \<Rightarrow> (case f x of (r, t') \<Rightarrow> (r, t @ t')))"

text \<open>
  \<^verbatim>\<open>try { ... } catch (error) { console.error(label, error); res...json(...) }\<close>: the
  handler \<open>h\<close> builds the response from the error.
\<close>

definition try_catch :: "response run \<Rightarrow> string \<Rightarrow> (js_error \<Rightarrow> response) \<Rightarrow> response \<times> event list" where
  "try_catch m label h =
     (case m of
        (Inr r, t) \<Rightarrow> (r, t)
      | (Inl e, t) \<Rightarrow> (h e, t @ [ConsoleError label e]))"

section \<open>The CRUD routes\<close>

text \<open>
  The three debate routes are the same text in both source files
  (\<^verbatim>\<open>server3.js\<close> lines 71--127, \<^verbatim>\<open>part_000\<close> lines 69--125).
\<close>

text \<open>\<^verbatim>\<open>app.get('/api/debates', ...)\<close>\<close>

definition get_debates :: "'ix env \<Rightarrow> response \<times> event list" where
  "get_debates env =
     try_catch
       (await (call StoreList (Debate_list env)) (\<lambda>debates.
          finish \<lparr>status = 200, body = [(''success'', PBool True), (''data'', PDebates debates)]\<rparr>))
       ''Error fetching all debates:''
       (\<lambda>error. \<lparr>status = 500, body =
          [(''success'', PBool False),
           (''message'', PStr ''An error occurred while fetching debates.''),
           (''error'', PStr (err_message error))]\<rparr>)"

text \<open>\<^verbatim>\<open>app.get('/api/debates/:debateId', ...)\<close>\<close>

definition get_debate_by_id :: "'ix env \<Rightarrow> string \<Rightarrow> response \<times> event list" where
  "get_debate_by_id env debateId =
     try_catch
       (if \<not> ObjectId_isValid env debateId then
          finish \<lparr>status = 400, body =
            [(''success'', PBool False), (''message'', PStr ''Invalid debate ID format.'')]\<rparr>
        else
          await (call (StoreFindById debateId) (Debate_findById env debateId)) (\<lambda>found.
            case found of
              None \<Rightarrow> finish \<lparr>status = 404, body =
                [(''success'', PBool False), (''message'', PStr ''Debate not found.'')]\<rparr>
            | Some debate \<Rightarrow> finish \<lparr>status = 200, body =
                [(''success'', PBool True), (''data'', PDebate debate)]\<rparr>))
       ''Error fetching debate details:''
       (\<lambda>error. \<lparr>status = 500, body =
          [(''success'', PBool False),
           (''message'', PStr ''An error occurred while fetching debate details.''),
           (''error'', PStr (err_message error))]\<rparr>)"

text \<open>\<^verbatim>\<open>app.post('/api/debates', ...)\<close>\<close>

definition post_debates :: "'ix env \<Rightarrow> js_object \<Rightarrow> response \<times> event list" where
  "post_debates env req_body =
     try_catch
       (await (call (StoreSave req_body) (Debate_save env req_body)) (\<lambda>savedDebate.
          finish \<lparr>status = 201, body = [(''success'', PBool True), (''data'', PDebate savedDebate)]\<rparr>))
       ''Error creating debate:''
       (\<lambda>error.
          if err_name error = ''ValidationError'' then
            \<lparr>status = 400, body =
              [(''success'', PBool False), (''message'', PStr ''Validation Error''),
               (''error'', PStr (err_message error))]\<rparr>
          else
            \<lparr>status = 500, body =
              [(''success'', PBool False),
               (''message'', PStr ''An error occurred while creating the debate.''),
               (''error'', PStr (err_message error))]\<rparr>)"

section \<open>The chat route\<close>

subsection \<open>Flattening a debate into text\<close>

text \<open>A template-literal substitution \<^verbatim>\<open>${v}\<close> of a string-typed schema path.\<close>

fun template :: "js_string \<Rightarrow> string" where
  "template SUndefined = ''undefined''"
| "template SNull = ''null''"
| "template (SVal s) = s"

text \<open>\<^verbatim>\<open>Array.prototype.join\<close> on an array of strings.\<close>

fun js_join :: "string \<Rightarrow> string list \<Rightarrow> string" where
  "js_join sep [] = []"
| "js_join sep [x] = x"
| "js_join sep (x # y # ys) = x @ sep @ js_join sep (y # ys)"

definition newline :: string where
  "newline = [CHR 0x0A]"

definition dquote :: string where
  "dquote = [CHR 0x22]"

text \<open>\<^verbatim>\<open>chat => `${chat.speaker}: ${chat.content}`\<close>\<close>

definition chat_line :: "chat_turn \<Rightarrow> string" where
  "chat_line chat = template (speaker chat) @ '': '' @ template (content chat)"

text \<open>
  The callback of \<^verbatim>\<open>debates.map\<close>:
  \<^verbatim>\<open>`Debate on "${debate.debateTopic}" (Client: ${debate.clientId}):\n${chatHistoryText}`\<close>
\<close>

definition debate_text :: "debate \<Rightarrow> string" where
  "debate_text debate =
     (let chatHistoryText = js_join newline (map chat_line (chatHistory debate))
      in ''Debate on '' @ dquote @ debateTopic debate @ dquote @ '' (Client: '' @ clientId debate
           @ ''):'' @ newline @ chatHistoryText)"

definition debateTexts :: "debate list \<Rightarrow> string list" where
  "debateTexts debates = map debate_text debates"

subsection \<open>The handler, both variants\<close>

definition question_required :: response where
  "question_required =
     \<lparr>status = 400, body = [(''success'', PBool False), (''message'', PStr ''Question is required.'')]\<rparr>"

definition no_history_reply :: string where
  "no_history_reply =
     ''I couldn't find any debate history. Once you complete a debate, you can ask me questions about it.''"

definition no_history :: response where
  "no_history = \<lparr>status = 200, body = [(''success'', PBool True), (''reply'', PStr no_history_reply)]\<rparr>"

definition rag_failure :: response where
  "rag_failure =
     \<lparr>status = 500, body =
        [(''success'', PBool False),
         (''message'', PStr ''An error occurred while processing your request.'')]\<rparr>"

text \<open>\<^verbatim>\<open>const query = clientId ? { clientId } : {};\<close>\<close>

definition rag_query :: "jsval \<Rightarrow> query" where
  "rag_query cid = (if truthy cid then ByClientId cid else EmptyFilter)"

text \<open>\<^verbatim>\<open>vectorStore.asRetriever({ k: 5 })\<close>, in both variants.\<close>

definition retriever_k :: nat where
  "retriever_k = 5"

text \<open>
  \<^verbatim>\<open>server3.js\<close>, lines 131--216: chunk size 2000, \<^verbatim>\<open>MemoryVectorStore\<close> with
  \<^verbatim>\<open>FastEmbedEmbeddings\<close>. The first step of the chain,
  \<^verbatim>\<open>context: retriever.pipe(formatDocumentsAsString)\<close>, hands the retriever the chain's whole
  input, the object \<^verbatim>\<open>{ question: question }\<close>; \<^verbatim>\<open>(input) => input.question\<close> reads the
  question back from it.
\<close>

definition rag_try_memory :: "'ix env \<Rightarrow> jsval \<Rightarrow> jsval \<Rightarrow> response run" where
  "rag_try_memory env question cid =
     (let query = rag_query cid in
      await (call (StoreFind query) (Debate_find env query)) (\<lambda>debates.
        if length debates = 0 then finish no_history
        else
          let texts = debateTexts debates in
          await (call (SplitCall 2000 200 texts) (createDocuments env 2000 200 texts)) (\<lambda>splitDocs.
          await (call (EmbedAndIndex MemoryVectorStore_FastEmbed splitDocs)
                   (fromDocuments env MemoryVectorStore_FastEmbed splitDocs)) (\<lambda>vectorStore.
          let input = [(''question'', question)] in
          await (call (Retrieve retriever_k (Obj input)) (retrieve env vectorStore retriever_k (Obj input))) (\<lambda>docs.
          let context = formatDocumentsAsString env docs in
          await (call (Generate context (get_prop input ''question''))
                   (generate env context (get_prop input ''question''))) (\<lambda>result.
          finish \<lparr>status = 200, body = [(''success'', PBool True), (''reply'', PStr result)]\<rparr>))))))"

definition chat_rag_memory :: "'ix env \<Rightarrow> js_object \<Rightarrow> response \<times> event list" where
  "chat_rag_memory env req_body =
     (let question = get_prop req_body ''question''; cid = get_prop req_body ''clientId'' in
      if \<not> truthy question then (question_required, [])
      else try_catch (rag_try_memory env question cid) ''RAG chat error:'' (\<lambda>error. rag_failure))"

text \<open>
  \<^verbatim>\<open>part_000\<close>, lines 129--209: chunk size 1000, \<^verbatim>\<open>FaissStore\<close> with
  \<^verbatim>\<open>HuggingFaceTransformersEmbeddings\<close>. After the store is built, the chain is assembled
  with \<^verbatim>\<open>((input) => input.question).pipe(retriever)\<close> (line 187). An arrow function is a
  plain function object: it has no \<^verbatim>\<open>pipe\<close> property, so the call throws a
  \<^verbatim>\<open>TypeError\<close> while the array literal is evaluated, inside the \<^verbatim>\<open>try\<close> block and
  before \<^verbatim>\<open>ragChain.invoke\<close>. The message is the engine's; the stack is left empty.
\<close>

definition pipe_TypeError :: js_error where
  "pipe_TypeError =
     \<lparr>err_name = ''TypeError'',
      err_message = ''(intermediate value).pipe is not a function'',
      err_stack = []\<rparr>"

definition rag_try_faiss :: "'ix env \<Rightarrow> jsval \<Rightarrow> jsval \<Rightarrow> response run" where
  "rag_try_faiss env question cid =
     (let query = rag_query cid in
      await (call (StoreFind query) (Debate_find env query)) (\<lambda>debates.
        if length debates = 0 then finish no_history
        else
          let texts = debateTexts debates in
          await (call (SplitCall 1000 200 texts) (createDocuments env 1000 200 texts)) (\<lambda>splitDocs.
          await (call (EmbedAndIndex FaissStore_HuggingFace splitDocs)
                   (fromDocuments env FaissStore_HuggingFace splitDocs)) (\<lambda>vectorStore.
          throw pipe_TypeError))))"

definition chat_rag_faiss :: "'ix env \<Rightarrow> js_object \<Rightarrow> response \<times> event list" where
  "chat_rag_faiss env req_body =
     (let question = get_prop req_body ''question''; cid = get_prop req_body ''clientId'' in
      if \<not> truthy question then (question_required, [])
      else try_catch (rag_try_faiss env question cid) ''RAG chat error:'' (\<lambda>error. rag_failure))"

text \<open>Which calls reach the embedder, the generator and the document store.\<close>

fun invokes_embedder :: "event \<Rightarrow> bool" where
  "invokes_embedder (EmbedAndIndex _ _) = True"
| "invokes_embedder (Retrieve _ _) = True"
| "invokes_embedder _ = False"

fun invokes_generator :: "event \<Rightarrow> bool" where
  "invokes_generator (Generate _ _) = True"
| "invokes_generator _ = False"

fun queries_store :: "event \<Rightarrow> bool" where
  "queries_store (StoreFind _) = True"
| "queries_store StoreList = True"
| "queries_store (StoreFindById _) = True"
| "queries_store (StoreSave _) = True"
| "queries_store _ = False"

section \<open>Collaborators as the specification describes them\<close>

text \<open>
  The splitter, the vector store and the document store are libraries: their code is not
  part of the two source files. Where a property is about what they return, they are
  modelled from the specification's own description.
\<close>

subsection \<open>Descending stable order\<close>

text \<open>
  Modelled from the spec: the ordering used by the Document Store (section 6, ``sorted by
  creation time descending'') and by the Vector Index (section 4.2, ``brute-force linear
  scan'', ``ties broken by insertion order (earlier chunk wins)''), neither in the source
  files. An entry is placed in front of the first entry whose key is not greater than
  its own.
\<close>

fun insert_desc :: "('a \<Rightarrow> 'k::linorder) \<Rightarrow> 'a \<Rightarrow> 'a list \<Rightarrow> 'a list" where
  "insert_desc f x [] = [x]"
| "insert_desc f x (y # ys) = (if f y \<le> f x then x # y # ys else y # insert_desc f x ys)"

text \<open>
  Modelled from the spec: the same ordering on a whole sequence; an entry met earlier stays
  in front of a later one with the same key.
\<close>

fun sort_desc :: "('a \<Rightarrow> 'k::linorder) \<Rightarrow> 'a list \<Rightarrow> 'a list" where
  "sort_desc f [] = []"
| "sort_desc f (x # xs) = insert_desc f x (sort_desc f xs)"

subsection \<open>Document store\<close>

text \<open>
  Modelled from the spec: the filter of the Document Store behind \<^verbatim>\<open>Debate.find\<close>
  (mongoose and MongoDB, not in the source files). The empty filter matches every record;
  the filter \<^verbatim>\<open>{ clientId }\<close> matches the records whose client identifier is that value.
\<close>

fun matches :: "query \<Rightarrow> debate \<Rightarrow> bool" where
  "matches EmptyFilter d = True"
| "matches (ByClientId v) d = (v = Str (clientId d))"

text \<open>
  Modelled from the spec: the query of the Document Store behind
  \<^verbatim>\<open>Debate.find(query).sort({ createdAt: -1 })\<close> (mongoose and MongoDB, not in the source
  files), over the stored records \<open>db\<close>. Section 6: ``query-by-filter returning matching
  records sorted by creation time descending''.
\<close>

definition store_find :: "debate list \<Rightarrow> query \<Rightarrow> debate list" where
  "store_find db q = sort_desc createdAt (filter (matches q) db)"

subsection \<open>Chunker\<close>

text \<open>
  Modelled from the spec: the natural boundaries of the Chunker behind
  \<^verbatim>\<open>RecursiveCharacterTextSplitter\<close> (LangChain, not in the source files). Section 4.1 names
  them ``paragraph, then sentence, then word''; they are taken to be a blank line, a full
  stop followed by a space, and a space.
\<close>

definition paragraph_end :: string where
  "paragraph_end = [CHR 0x0A, CHR 0x0A]"

definition sentence_end :: string where
  "sentence_end = ''. ''"

definition word_end :: string where
  "word_end = '' ''"

text \<open>
  Modelled from the spec: the last position \<open>p\<close> with \<open>ov < p \<le> M\<close> at which the text
  read so far ends with the boundary \<open>sep\<close>, if there is one (Chunker, not in the source
  files). Section 4.1: a boundary ``not exceeding the maximum size''; it lies beyond the
  overlap, so that the next chunk starts further on.
\<close>

definition boundary_after :: "string \<Rightarrow> nat \<Rightarrow> nat \<Rightarrow> string \<Rightarrow> nat option" where
  "boundary_after sep M ov t =
     (case filter (\<lambda>p. suffix sep (take p t)) (rev [Suc ov..<Suc M]) of
        [] \<Rightarrow> None
      | p # _ \<Rightarrow> Some p)"

text \<open>
  Modelled from the spec: where the Chunker (not in the source files) cuts a text longer
  than \<open>M\<close>. Section 4.1: ``attempt to break at the largest available natural boundary
  (paragraph, then sentence, then word, then hard character cut) not exceeding the maximum
  size''.
\<close>

definition cut_point :: "nat \<Rightarrow> nat \<Rightarrow> string \<Rightarrow> nat" where
  "cut_point M ov t =
     (case boundary_after paragraph_end M ov t of
        Some p \<Rightarrow> p
      | None \<Rightarrow>
          (case boundary_after sentence_end M ov t of
             Some p \<Rightarrow> p
           | None \<Rightarrow>
               (case boundary_after word_end M ov t of
                  Some p \<Rightarrow> p
                | None \<Rightarrow> M)))"

text \<open>
  Modelled from the spec: the cut point of the Chunker (not in the source files), kept
  within \<open>ov < cut \<le> M\<close>, which \<open>cut_point\<close> always meets when \<open>ov < M\<close>.
\<close>

definition clamped_cut :: "nat \<Rightarrow> nat \<Rightarrow> string \<Rightarrow> nat" where
  "clamped_cut M ov t = (let p = cut_point M ov t in if ov < p \<and> p \<le> M then p else M)"

text \<open>
  Modelled from the spec: the Chunker (not in the source files) on one blob. Section 4.1:
  ``a blob shorter than the maximum size yields exactly one chunk equal to the blob''; a
  longer one is cut at the cut point, and the rest is chunked in turn, ``preserving overlap
  trailing characters of the previous chunk at the start of the next chunk''. The contract
  asks for \<open>ov < M\<close>.
\<close>

function chunk_blob :: "nat \<Rightarrow> nat \<Rightarrow> string \<Rightarrow> string list" where
  "chunk_blob M ov t =
     (if length t \<le> M \<or> M \<le> ov then [t]
      else take (clamped_cut M ov t) t # chunk_blob M ov (drop (clamped_cut M ov t - ov) t))"
  by pat_completeness auto
termination
  by (relation "measure (\<lambda>(M, ov, t). length t)") (auto simp: clamped_cut_def Let_def)

declare chunk_blob.simps [simp del]

text \<open>
  Modelled from the spec: the Chunker (not in the source files) on a sequence of blobs.
  Section 4.1: ``produce an ordered sequence of Text Chunks per blob''; ``empty input
  sequence yields an empty output sequence''. \<open>None\<close> when the contract \<open>ov < M\<close> is not
  met.
\<close>

definition chunk_all :: "nat \<Rightarrow> nat \<Rightarrow> string list \<Rightarrow> string list option" where
  "chunk_all M ov blobs = (if ov < M then Some (concat (map (chunk_blob M ov) blobs)) else None)"

subsection \<open>Vector index\<close>

text \<open>
  Modelled from the spec: an entry of the Vector Index behind \<^verbatim>\<open>MemoryVectorStore\<close> and
  \<^verbatim>\<open>FaissStore\<close> (LangChain, not in the source files). Section 3: an embedding vector
  with its originating chunk text. An index is the list of its entries in insertion order.
\<close>

record 'v index_entry =
  vector :: 'v
  chunk_text :: string

text \<open>
  Modelled from the spec: the entries of the Vector Index (not in the source files), each
  with its insertion position, in descending order of similarity to the query vector.
  Section 4.2, strategy (b): ``brute-force linear scan over all entries held in memory''.
  The similarity measure \<open>sim\<close> (``cosine similarity (or equivalent distance metric)'') is
  a parameter with values in a linear order.
\<close>

definition ranked :: "('v \<Rightarrow> 'v \<Rightarrow> 's::linorder) \<Rightarrow> 'v index_entry list \<Rightarrow> 'v \<Rightarrow> (nat \<times> 'v index_entry) list" where
  "ranked sim index qv = sort_desc (\<lambda>(i, e). sim qv (vector e)) (enumerate 0 index)"

text \<open>
  Modelled from the spec: the insertion positions of the entries a query of the Vector
  Index (not in the source files) returns, in result order.
\<close>

definition query_positions :: "('v \<Rightarrow> 'v \<Rightarrow> 's::linorder) \<Rightarrow> 'v index_entry list \<Rightarrow> 'v \<Rightarrow> nat \<Rightarrow> nat list" where
  "query_positions sim index qv k = map fst (take k (ranked sim index qv))"

text \<open>
  Modelled from the spec: \<^verbatim>\<open>query(index, queryVector, k)\<close> of the Vector Index (not in the
  source files), as chunk texts. Section 4.2: ``returns the k entries whose stored vectors
  have the highest cosine similarity (or equivalent distance metric) to queryVector, ties
  broken by insertion order (earlier chunk wins), returning fewer than k if the index has
  fewer than k entries, and an empty result if the index is empty''.
\<close>

definition query_index :: "('v \<Rightarrow> 'v \<Rightarrow> 's::linorder) \<Rightarrow> 'v index_entry list \<Rightarrow> 'v \<Rightarrow> nat \<Rightarrow> string list" where
  "query_index sim index qv k = map (\<lambda>(i, e). chunk_text e) (take k (ranked sim index qv))"

section \<open>Notions used by the properties\<close>

text \<open>
  Position \<open>i\<close> of an index comes before position \<open>j\<close> in a result: its entry is more
  similar to the query, or as similar and inserted earlier.
\<close>

definition precedes :: "('v \<Rightarrow> 'v \<Rightarrow> 's::linorder) \<Rightarrow> 'v index_entry list \<Rightarrow> 'v \<Rightarrow> nat \<Rightarrow> nat \<Rightarrow> bool" where
  "precedes sim index qv i j =
     (sim qv (vector (index ! j)) < sim qv (vector (index ! i))
      \<or> (sim qv (vector (index ! i)) = sim qv (vector (index ! j)) \<and> i < j))"

text \<open>
  Order on entries ranked together with their positions: the higher key first, and among
  equal keys the smaller position.
\<close>

definition ranks_before :: "(nat \<times> 'e \<Rightarrow> 'k::linorder) \<Rightarrow> nat \<times> 'e \<Rightarrow> nat \<times> 'e \<Rightarrow> bool" where
  "ranks_before g a b = (g b < g a \<or> (g a = g b \<and> fst a < fst b))"




text \<open>A value that is a non-empty string.\<close>

fun nonempty_string :: "jsval \<Rightarrow> bool" where
  "nonempty_string (Str s) = (s \<noteq> [])"
| "nonempty_string _ = False"

text \<open>The chunk lists handed to an index build, whichever the backend.\<close>

fun indexed_docs :: "event list \<Rightarrow> string list list" where
  "indexed_docs [] = []"
| "indexed_docs (EmbedAndIndex b docs # evs) = docs # indexed_docs evs"
| "indexed_docs (ev # evs) = indexed_docs evs"

subsection \<open>Sample collaborators\<close>

text \<open>
  An unreachable service, and an environment in which every call to a service throws. An
  identifier counts as well-formed when it has 24 characters; retrieved documents are
  joined with a blank line.
\<close>

definition offline :: js_error where
  "offline =
     \<lparr>err_name = ''MongoNetworkError'',
      err_message = ''connect ECONNREFUSED 127.0.0.1:27017'',
      err_stack = ''MongoNetworkError: connect ECONNREFUSED at connectionFailureError''\<rparr>"

definition down_env :: "string list env" where
  "down_env =
     \<lparr>Debate_find = (\<lambda>q. Inl offline),
      Debate_list = Inl offline,
      ObjectId_isValid = (\<lambda>s. length s = 24),
      Debate_findById = (\<lambda>i. Inl offline),
      Debate_save = (\<lambda>b. Inl offline),
      createDocuments = (\<lambda>M ov ts. Inl offline),
      fromDocuments = (\<lambda>b docs. Inl offline),
      retrieve = (\<lambda>ix k input. Inl offline),
      formatDocumentsAsString = js_join (newline @ newline),
      generate = (\<lambda>context question. Inl offline)\<rparr>"

text \<open>
  An environment over the store contents \<open>db\<close>: the document store and the chunker as
  modelled above, an index that is the list of its chunks, a retriever that returns the
  first \<open>k\<close> of them, and a generator that answers with its context.
\<close>

definition sample_env :: "debate list \<Rightarrow> string list env" where
  "sample_env db =
     down_env
       \<lparr>Debate_find := (\<lambda>q. Inr (store_find db q)),
        createDocuments := (\<lambda>M ov ts. case chunk_all M ov ts of None \<Rightarrow> Inl offline | Some cs \<Rightarrow> Inr cs),
        fromDocuments := (\<lambda>b docs. Inr docs),
        retrieve := (\<lambda>ix k input. Inr (take k ix)),
        generate := (\<lambda>context question. Inr context)\<rparr>"

definition sample_turn :: "string \<Rightarrow> string \<Rightarrow> chat_turn" where
  "sample_turn who what = \<lparr>speaker = SVal who, content = SVal what, timestamp = 0\<rparr>"

definition sample_debate :: "string \<Rightarrow> string \<Rightarrow> chat_turn list \<Rightarrow> int \<Rightarrow> debate" where
  "sample_debate cid topic turns created =
     \<lparr>ident = ''65f0c0ffee65f0c0ffee0001'', clientId = cid, debateTopic = topic,
      userRole = ''proposition'', chatHistory = turns, adjudicationResult = Obj [],
      uploadedFiles = [], createdAt = created\<rparr>"

text \<open>Sample data: two debates of two clients, a debate with one long turn, an index.\<close>

definition sample_debates :: "debate list" where
  "sample_debates =
     [sample_debate ''u1'' ''Cats''
        [sample_turn ''user'' ''Cats rule.'', sample_turn ''ai'' ''Dogs drool.''] 10,
      sample_debate ''u2'' ''Tax'' [] 20]"

definition long_debate :: debate where
  "long_debate = sample_debate ''u1'' ''Cats'' [sample_turn ''user'' (replicate 1500 (CHR ''a''))] 20"

definition closeness :: "int \<Rightarrow> int \<Rightarrow> int" where
  "closeness q v = - \<bar>q - v\<bar>"

definition sample_index :: "int index_entry list" where
  "sample_index =
     [\<lparr>vector = 3, chunk_text = ''c0''\<rparr>, \<lparr>vector = 9, chunk_text = ''c1''\<rparr>,
      \<lparr>vector = 3, chunk_text = ''c2''\<rparr>, \<lparr>vector = 7, chunk_text = ''c3''\<rparr>,
      \<lparr>vector = 9, chunk_text = ''c4''\<rparr>, \<lparr>vector = 1, chunk_text = ''c5''\<rparr>,
      \<lparr>vector = 3, chunk_text = ''c6''\<rparr>]"

text \<open>The flattened texts of the two sample debates.\<close>

definition tax_text :: string where
  "tax_text = ''Debate on '' @ dquote @ ''Tax'' @ dquote @ '' (Client: u2):'' @ newline"

definition cats_text :: string where
  "cats_text = ''Debate on '' @ dquote @ ''Cats'' @ dquote @ '' (Client: u1):'' @ newline
        @ ''user: Cats rule.'' @ newline @ ''ai: Dogs drool.''"

text \<open>
  Errors as a model provider and as mongoose's validation raise them, and environments in
  which one stage of the pipeline, or one store operation, throws.
\<close>

definition provider_error :: js_error where
  "provider_error =
     \<lparr>err_name = ''AuthenticationError'',
      err_message = ''401 {error: {message: Invalid API Key, code: invalid_api_key}}'',
      err_stack = ''AuthenticationError: 401 at ChatGroq.completionWithRetry''\<rparr>"

definition validation_error :: js_error where
  "validation_error =
     \<lparr>err_name = ''ValidationError'',
      err_message = ''Debate validation failed: debateTopic: Path `debateTopic` is required.'',
      err_stack = ''ValidationError: Debate validation failed at model.Document.invalidate''\<rparr>"

definition split_fails :: "string list env" where
  "split_fails = (sample_env sample_debates)\<lparr>createDocuments := (\<lambda>M ov ts. Inl provider_error)\<rparr>"

definition index_fails :: "string list env" where
  "index_fails = (sample_env sample_debates)\<lparr>fromDocuments := (\<lambda>b docs. Inl provider_error)\<rparr>"

definition retrieve_fails :: "string list env" where
  "retrieve_fails = (sample_env sample_debates)\<lparr>retrieve := (\<lambda>ix k input. Inl provider_error)\<rparr>"

definition generate_fails :: "string list env" where
  "generate_fails = (sample_env sample_debates)\<lparr>generate := (\<lambda>context question. Inl provider_error)\<rparr>"

definition list_fails :: "string list env" where
  "list_fails = down_env\<lparr>Debate_list := Inl provider_error\<rparr>"

definition save_rejects :: "string list env" where
  "save_rejects = down_env\<lparr>Debate_save := (\<lambda>b. Inl validation_error)\<rparr>"

section \<open>Properties\<close>

lemmas run_defs = call_def finish_def throw_def await_def try_catch_def

subsection \<open>The question guard\<close>

lemma memory_passes_guard:
  assumes "truthy (get_prop req_body ''question'')"
  shows "take 1 (snd (chat_rag_memory env req_body)) = [StoreFind (rag_query (get_prop req_body ''clientId''))]
       \<and> status (fst (chat_rag_memory env req_body)) \<noteq> 400"
  using assms
  by (simp add: chat_rag_memory_def rag_try_memory_def run_defs Let_def no_history_def rag_failure_def
      split: sum.splits prod.splits)

lemma faiss_passes_guard:
  assumes "truthy (get_prop req_body ''question'')"
  shows "take 1 (snd (chat_rag_faiss env req_body)) = [StoreFind (rag_query (get_prop req_body ''clientId''))]
       \<and> status (fst (chat_rag_faiss env req_body)) \<noteq> 400"
  using assms
  by (simp add: chat_rag_faiss_def rag_try_faiss_def run_defs Let_def no_history_def rag_failure_def
      split: sum.splits prod.splits)

text \<open>
  Claim C5, as the code has it: the guard of \<^verbatim>\<open>POST /api/chat/rag\<close> tests the truthiness
  of \<^verbatim>\<open>question\<close>, not its type. When the question is absent or falsy (\<^verbatim>\<open>undefined\<close>,
  \<^verbatim>\<open>null\<close>, \<^verbatim>\<open>false\<close>, \<^verbatim>\<open>0\<close>, the empty string), both variants answer 400 with
  \<^verbatim>\<open>success: false\<close> and make no call at all, so the document store is never queried.
  When the question is truthy, whatever its type (\<^verbatim>\<open>true\<close>, a non-zero number, a
  non-empty string, any array, any object), both variants pass the guard: the first call
  is the store query and the response is not a 400.
\<close>

theorem question_guard_tests_truthiness:
  "(\<not> truthy (get_prop req_body ''question'') \<longrightarrow>
      chat_rag_memory env req_body =
        (\<lparr>status = 400, body = [(''success'', PBool False), (''message'', PStr ''Question is required.'')]\<rparr>, [])
      \<and> chat_rag_faiss env req_body =
        (\<lparr>status = 400, body = [(''success'', PBool False), (''message'', PStr ''Question is required.'')]\<rparr>, []))
   \<and> (truthy (get_prop req_body ''question'') \<longrightarrow>
      take 1 (snd (chat_rag_memory env req_body)) = [StoreFind (rag_query (get_prop req_body ''clientId''))]
      \<and> take 1 (snd (chat_rag_faiss env req_body)) = [StoreFind (rag_query (get_prop req_body ''clientId''))]
      \<and> queries_store (StoreFind (rag_query (get_prop req_body ''clientId'')))
      \<and> status (fst (chat_rag_memory env req_body)) \<noteq> 400
      \<and> status (fst (chat_rag_faiss env req_body)) \<noteq> 400)
   \<and> \<not> truthy Undefined \<and> \<not> truthy Null \<and> \<not> truthy (Bool False) \<and> \<not> truthy (Num 0)
   \<and> \<not> truthy (Str [])
   \<and> truthy (Bool True) \<and> truthy (Arr xs) \<and> truthy (Obj props)
   \<and> (r \<noteq> 0 \<longrightarrow> truthy (Num r)) \<and> (s \<noteq> [] \<longrightarrow> truthy (Str s))"
proof -
  have falsy: "\<not> truthy (get_prop req_body ''question'') \<longrightarrow>
      chat_rag_memory env req_body =
        (\<lparr>status = 400, body = [(''success'', PBool False), (''message'', PStr ''Question is required.'')]\<rparr>, [])
      \<and> chat_rag_faiss env req_body =
        (\<lparr>status = 400, body = [(''success'', PBool False), (''message'', PStr ''Question is required.'')]\<rparr>, [])"
    by (simp add: chat_rag_memory_def chat_rag_faiss_def question_required_def)
  have vals: "\<not> truthy Undefined \<and> \<not> truthy Null \<and> \<not> truthy (Bool False) \<and> \<not> truthy (Num 0)
      \<and> \<not> truthy (Str [])
      \<and> truthy (Bool True) \<and> truthy (Arr xs) \<and> truthy (Obj props)
      \<and> (r \<noteq> 0 \<longrightarrow> truthy (Num r)) \<and> (s \<noteq> [] \<longrightarrow> truthy (Str s))"
    by simp
  show ?thesis
    using falsy vals memory_passes_guard [of req_body env] faiss_passes_guard [of req_body env]
    by simp
qed

theorem question_guard_tests_truthiness_witness:
  "\<not> truthy (get_prop [(''clientId'', Str ''u1''), (''question'', Str [])] ''question'')
   \<and> chat_rag_memory down_env [(''clientId'', Str ''u1''), (''question'', Str [])] =
       (\<lparr>status = 400, body = [(''success'', PBool False), (''message'', PStr ''Question is required.'')]\<rparr>, [])
   \<and> chat_rag_faiss down_env [(''clientId'', Str ''u1''), (''question'', Str [])] =
       (\<lparr>status = 400, body = [(''success'', PBool False), (''message'', PStr ''Question is required.'')]\<rparr>, [])
   \<and> truthy (get_prop [(''question'', Arr [])] ''question'')
   \<and> take 1 (snd (chat_rag_memory (sample_env sample_debates) [(''question'', Arr [])])) = [StoreFind EmptyFilter]
   \<and> take 1 (snd (chat_rag_faiss (sample_env sample_debates) [(''question'', Arr [])])) = [StoreFind EmptyFilter]
   \<and> status (fst (chat_rag_memory (sample_env sample_debates) [(''question'', Arr [])])) \<noteq> 400
   \<and> status (fst (chat_rag_faiss (sample_env sample_debates) [(''question'', Arr [])])) \<noteq> 400
   \<and> (1::rat) \<noteq> 0 \<and> truthy (Num 1) \<and> ''0'' \<noteq> [] \<and> truthy (Str ''0'')"
proof -
  let ?f = "[(''clientId'', Str ''u1''), (''question'', Str [])]"
  let ?t = "[(''question'', Arr [])]"
  have h: "\<not> truthy (get_prop ?f ''question'')"
    by (simp add: get_prop_def)
  have k: "truthy (get_prop ?t ''question'')"
    by (simp add: get_prop_def)
  have c: "rag_query (get_prop ?t ''clientId'') = EmptyFilter"
    by (simp add: get_prop_def rag_query_def)
  have A: "chat_rag_memory down_env ?f =
       (\<lparr>status = 400, body = [(''success'', PBool False), (''message'', PStr ''Question is required.'')]\<rparr>, [])
     \<and> chat_rag_faiss down_env ?f =
       (\<lparr>status = 400, body = [(''success'', PBool False), (''message'', PStr ''Question is required.'')]\<rparr>, [])"
    using h question_guard_tests_truthiness [of ?f down_env] by blast
  have B: "take 1 (snd (chat_rag_memory (sample_env sample_debates) ?t)) = [StoreFind EmptyFilter]
      \<and> take 1 (snd (chat_rag_faiss (sample_env sample_debates) ?t)) = [StoreFind EmptyFilter]
      \<and> status (fst (chat_rag_memory (sample_env sample_debates) ?t)) \<noteq> 400
      \<and> status (fst (chat_rag_faiss (sample_env sample_debates) ?t)) \<noteq> 400"
    using k question_guard_tests_truthiness [of ?t "sample_env sample_debates"] unfolding c by blast
  have C: "(1::rat) \<noteq> 0 \<and> truthy (Num 1) \<and> ''0'' \<noteq> [] \<and> truthy (Str ''0'')"
    using question_guard_tests_truthiness [of ?t down_env _ _ 1 "''0''"] by simp
  show ?thesis
    using h k A B C by blast
qed

text \<open>
  The guard tests truthiness, not the type: the body \<^verbatim>\<open>{"question": 42}\<close> has no non-empty
  question string, passes the guard, and the document store is queried (here it is
  unreachable, and the answer is 500).
\<close>

theorem question_guard_counterexample:
  "\<not> nonempty_string (get_prop [(''question'', Num 42)] ''question'')
   \<and> status (fst (chat_rag_memory down_env [(''question'', Num 42)])) = 500
   \<and> snd (chat_rag_memory down_env [(''question'', Num 42)]) =
        [StoreFind EmptyFilter, ConsoleError ''RAG chat error:'' offline]
   \<and> status (fst (chat_rag_faiss down_env [(''question'', Num 42)])) = 500
   \<and> snd (chat_rag_faiss down_env [(''question'', Num 42)]) =
        [StoreFind EmptyFilter, ConsoleError ''RAG chat error:'' offline]
   \<and> queries_store (StoreFind EmptyFilter)"
  by (simp add: chat_rag_memory_def chat_rag_faiss_def rag_try_memory_def rag_try_faiss_def
      get_prop_def rag_query_def down_env_def rag_failure_def run_defs)

subsection \<open>Empty history\<close>

text \<open>
  Claim C2: when the document-store query of a \<^verbatim>\<open>POST /api/chat/rag\<close> request returns no
  record, the response is 200 with \<^verbatim>\<open>success: true\<close> and the canned reply that begins
  ``I couldn't find any debate history'', and the only call made is the store query:
  neither the embedder nor the generator is invoked. Both variants.
\<close>

theorem empty_history_short_circuit:
  assumes "truthy (get_prop req_body ''question'')"
    and "Debate_find env (rag_query (get_prop req_body ''clientId'')) = Inr []"
  shows "chat_rag_memory env req_body =
           (\<lparr>status = 200, body = [(''success'', PBool True), (''reply'', PStr no_history_reply)]\<rparr>,
            [StoreFind (rag_query (get_prop req_body ''clientId''))])
       \<and> chat_rag_faiss env req_body =
           (\<lparr>status = 200, body = [(''success'', PBool True), (''reply'', PStr no_history_reply)]\<rparr>,
            [StoreFind (rag_query (get_prop req_body ''clientId''))])
       \<and> prefix ''I couldn't find any debate history'' no_history_reply
       \<and> \<not> list_ex invokes_embedder (snd (chat_rag_memory env req_body))
       \<and> \<not> list_ex invokes_generator (snd (chat_rag_memory env req_body))
       \<and> \<not> list_ex invokes_embedder (snd (chat_rag_faiss env req_body))
       \<and> \<not> list_ex invokes_generator (snd (chat_rag_faiss env req_body))"
proof -
  have m: "chat_rag_memory env req_body = (no_history, [StoreFind (rag_query (get_prop req_body ''clientId''))])"
    using assms by (simp add: chat_rag_memory_def rag_try_memory_def run_defs)
  have f: "chat_rag_faiss env req_body = (no_history, [StoreFind (rag_query (get_prop req_body ''clientId''))])"
    using assms by (simp add: chat_rag_faiss_def rag_try_faiss_def run_defs)
  have p: "prefix ''I couldn't find any debate history'' no_history_reply"
    by (simp add: no_history_reply_def)
  show ?thesis
    using m f p by (simp add: no_history_def)
qed

theorem empty_history_short_circuit_witness:
  "truthy (get_prop [(''question'', Str ''Who won?''), (''clientId'', Str ''u1'')] ''question'')
   \<and> Debate_find (sample_env [])
         (rag_query (get_prop [(''question'', Str ''Who won?''), (''clientId'', Str ''u1'')] ''clientId'')) = Inr []
   \<and> chat_rag_memory (sample_env []) [(''question'', Str ''Who won?''), (''clientId'', Str ''u1'')] =
        (\<lparr>status = 200, body = [(''success'', PBool True), (''reply'', PStr no_history_reply)]\<rparr>,
         [StoreFind (ByClientId (Str ''u1''))])
   \<and> chat_rag_faiss (sample_env []) [(''question'', Str ''Who won?''), (''clientId'', Str ''u1'')] =
        (\<lparr>status = 200, body = [(''success'', PBool True), (''reply'', PStr no_history_reply)]\<rparr>,
         [StoreFind (ByClientId (Str ''u1''))])"
proof -
  let ?b = "[(''question'', Str ''Who won?''), (''clientId'', Str ''u1'')]"
  have q: "truthy (get_prop ?b ''question'')"
    by (simp add: get_prop_def)
  have c: "rag_query (get_prop ?b ''clientId'') = ByClientId (Str ''u1'')"
    by (simp add: get_prop_def rag_query_def)
  have s: "Debate_find (sample_env []) (rag_query (get_prop ?b ''clientId'')) = Inr []"
    by (simp add: sample_env_def down_env_def store_find_def)
  show ?thesis
    using q s empty_history_short_circuit [OF q s] by (simp add: c)
qed

subsection \<open>Debate by id\<close>

text \<open>
  Claim C8: \<^verbatim>\<open>GET /api/debates/:id\<close> answers 400 when the id is not a valid identifier, and
  404 when the id is valid and the store finds no record with it; both bodies carry
  \<^verbatim>\<open>success: false\<close>. In the first case the store is not asked.
\<close>

theorem debate_by_id_invalid_or_missing:
  "(\<not> ObjectId_isValid env debateId \<longrightarrow>
      get_debate_by_id env debateId =
        (\<lparr>status = 400, body = [(''success'', PBool False), (''message'', PStr ''Invalid debate ID format.'')]\<rparr>,
         []))
   \<and> (ObjectId_isValid env debateId \<and> Debate_findById env debateId = Inr None \<longrightarrow>
      get_debate_by_id env debateId =
        (\<lparr>status = 404, body = [(''success'', PBool False), (''message'', PStr ''Debate not found.'')]\<rparr>,
         [StoreFindById debateId]))"
  by (simp add: get_debate_by_id_def run_defs)

theorem debate_by_id_invalid_or_missing_witness:
  "\<not> ObjectId_isValid (down_env\<lparr>Debate_findById := (\<lambda>i. Inr None)\<rparr>) ''not-an-id''
   \<and> get_debate_by_id (down_env\<lparr>Debate_findById := (\<lambda>i. Inr None)\<rparr>) ''not-an-id'' =
        (\<lparr>status = 400, body = [(''success'', PBool False), (''message'', PStr ''Invalid debate ID format.'')]\<rparr>,
         [])
   \<and> ObjectId_isValid (down_env\<lparr>Debate_findById := (\<lambda>i. Inr None)\<rparr>) ''65f0c0ffee65f0c0ffee0001''
   \<and> Debate_findById (down_env\<lparr>Debate_findById := (\<lambda>i. Inr None)\<rparr>) ''65f0c0ffee65f0c0ffee0001'' = Inr None
   \<and> get_debate_by_id (down_env\<lparr>Debate_findById := (\<lambda>i. Inr None)\<rparr>) ''65f0c0ffee65f0c0ffee0001'' =
        (\<lparr>status = 404, body = [(''success'', PBool False), (''message'', PStr ''Debate not found.'')]\<rparr>,
         [StoreFindById ''65f0c0ffee65f0c0ffee0001''])"
proof -
  let ?env = "down_env\<lparr>Debate_findById := (\<lambda>i. Inr None)\<rparr>"
  have a: "\<not> ObjectId_isValid ?env ''not-an-id''"
    by (simp add: down_env_def)
  have b: "ObjectId_isValid ?env ''65f0c0ffee65f0c0ffee0001''"
    by (simp add: down_env_def)
  have c: "Debate_findById ?env ''65f0c0ffee65f0c0ffee0001'' = Inr None"
    by simp
  show ?thesis
    using a b c debate_by_id_invalid_or_missing [of ?env "''not-an-id''"]
      debate_by_id_invalid_or_missing [of ?env "''65f0c0ffee65f0c0ffee0001''"]
    by simp
qed

subsection \<open>Flattening\<close>







lemma sample_texts:
  "debateTexts sample_debates =
     [''Debate on '' @ dquote @ ''Cats'' @ dquote @ '' (Client: u1):'' @ newline
        @ ''user: Cats rule.'' @ newline @ ''ai: Dogs drool.'',
      ''Debate on '' @ dquote @ ''Tax'' @ dquote @ '' (Client: u2):'' @ newline]"
  by (simp add: debateTexts_def debate_text_def sample_debates_def sample_debate_def
      sample_turn_def chat_line_def)


subsection \<open>Chunking\<close>



lemma chunk_blob_short: "length t \<le> M \<Longrightarrow> chunk_blob M ov t = [t]"
  by (subst chunk_blob.simps) simp

lemma clamped_cut_range: "ov < M \<Longrightarrow> ov < clamped_cut M ov t \<and> clamped_cut M ov t \<le> M"
  by (simp add: clamped_cut_def Let_def)

lemma chunk_blob_long:
  "M < length t \<Longrightarrow> ov < M \<Longrightarrow>
     chunk_blob M ov t = take (clamped_cut M ov t) t # chunk_blob M ov (drop (clamped_cut M ov t - ov) t)"
  by (subst chunk_blob.simps) simp

lemma chunk_blob_nonempty: "chunk_blob M ov t \<noteq> []"
  by (subst chunk_blob.simps) simp

lemma chunk_blob_bounded:
  "ov < M \<Longrightarrow> c \<in> set (chunk_blob M ov t) \<Longrightarrow> length c \<le> M"
proof (induction M ov t rule: chunk_blob.induct)
  case (1 M ov t)
  show ?case
  proof (cases "length t \<le> M")
    case True
    with "1.prems" show ?thesis by (simp add: chunk_blob_short)
  next
    case False
    then have long: "M < length t" by simp
    have eq: "chunk_blob M ov t = take (clamped_cut M ov t) t # chunk_blob M ov (drop (clamped_cut M ov t - ov) t)"
      using long "1.prems"(1) by (rule chunk_blob_long)
    from "1.prems"(2) eq consider "c = take (clamped_cut M ov t) t"
      | "c \<in> set (chunk_blob M ov (drop (clamped_cut M ov t - ov) t))" by auto
    then show ?thesis
    proof cases
      case 1
      then show ?thesis using clamped_cut_range [OF "1.prems"(1), of t] by (simp add: min_def)
    next
      case 2
      have "\<not> (length t \<le> M \<or> M \<le> ov)" using long "1.prems"(1) by simp
      from "1.IH" [OF this "1.prems"(1)] 2 show ?thesis
        by simp
    qed
  qed
qed

lemma chunk_blob_head:
  "ov < M \<Longrightarrow> ov < length u \<Longrightarrow>
     take ov (hd (chunk_blob M ov u)) = take ov u \<and> ov \<le> length (hd (chunk_blob M ov u))"
proof (cases "length u \<le> M")
  case True
  assume "ov < length u"
  with True show ?thesis by (simp add: chunk_blob_short)
next
  case False
  assume a: "ov < M"
  from False have long: "M < length u" by simp
  have r: "ov < clamped_cut M ov u \<and> clamped_cut M ov u \<le> M" using a by (rule clamped_cut_range)
  show ?thesis
    using long r by (simp add: chunk_blob_long [OF long a] min_def)
qed

lemma chunk_blob_overlap:
  "ov < M \<Longrightarrow> Suc i < length (chunk_blob M ov t) \<Longrightarrow>
     drop (length (chunk_blob M ov t ! i) - ov) (chunk_blob M ov t ! i)
       = take ov (chunk_blob M ov t ! Suc i)
     \<and> ov \<le> length (chunk_blob M ov t ! i)
     \<and> ov \<le> length (chunk_blob M ov t ! Suc i)"
proof (induction M ov t arbitrary: i rule: chunk_blob.induct)
  case (1 M ov t)
  show ?case
  proof (cases "length t \<le> M")
    case True
    with "1.prems" show ?thesis by (simp add: chunk_blob_short)
  next
    case False
    then have long: "M < length t" by simp
    let ?cut = "clamped_cut M ov t"
    let ?rest = "chunk_blob M ov (drop (?cut - ov) t)"
    have eq: "chunk_blob M ov t = take ?cut t # ?rest"
      using long "1.prems"(1) by (rule chunk_blob_long)
    have r: "ov < ?cut \<and> ?cut \<le> M" using "1.prems"(1) by (rule clamped_cut_range)
    have ne: "?rest \<noteq> []" by (rule chunk_blob_nonempty)
    show ?thesis
    proof (cases i)
      case 0
      have lu: "ov < length (drop (?cut - ov) t)" using long r by simp arith
      have h: "take ov (hd ?rest) = take ov (drop (?cut - ov) t) \<and> ov \<le> length (hd ?rest)"
        using "1.prems"(1) lu by (rule chunk_blob_head)
      have n1: "chunk_blob M ov t ! Suc 0 = hd ?rest"
        using ne by (simp add: eq hd_conv_nth)
      have n0: "chunk_blob M ov t ! 0 = take ?cut t" by (simp add: eq)
      have len0: "length (take ?cut t) = ?cut" using long r by simp
      have d: "drop (?cut - ov) (take ?cut t) = take ov (drop (?cut - ov) t)"
        using r by (simp add: drop_take)
      show ?thesis
        unfolding 0 n1 n0 len0 using h d r by simp
    next
      case (Suc j)
      have g: "\<not> (length t \<le> M \<or> M \<le> ov)" using long "1.prems"(1) by simp
      have sj: "Suc j < length ?rest" using "1.prems"(2) Suc by (simp add: eq)
      have ih: "drop (length (?rest ! j) - ov) (?rest ! j) = take ov (?rest ! Suc j)
          \<and> ov \<le> length (?rest ! j) \<and> ov \<le> length (?rest ! Suc j)"
        using "1.IH" [OF g "1.prems"(1), of j] sj by simp
      show ?thesis
        unfolding Suc using ih by (simp add: eq)
    qed
  qed
qed

text \<open>
  Claim C9: chunking a non-empty blob strictly shorter than the maximum size \<open>M\<close> yields
  exactly one chunk, identical to the blob. Proved of the chunker as the specification
  describes it.
\<close>

theorem short_blob_single_chunk:
  "t \<noteq> [] \<Longrightarrow> length t < M \<Longrightarrow>
     chunk_blob M ov t = [t] \<and> (ov < M \<longrightarrow> chunk_all M ov [t] = Some [t])"
  by (simp add: chunk_blob_short chunk_all_def)

theorem short_blob_single_chunk_witness:
  "''Debate on x'' \<noteq> [] \<and> length ''Debate on x'' < 2000
   \<and> chunk_blob 2000 200 ''Debate on x'' = [''Debate on x'']
   \<and> chunk_all 2000 200 [''Debate on x''] = Some [''Debate on x'']
   \<and> chunk_all 1000 200 [''Debate on x''] = Some [''Debate on x'']"
proof -
  have a: "''Debate on x'' \<noteq> []" by simp
  have b: "length ''Debate on x'' < 2000" by simp
  have c: "length ''Debate on x'' < 1000" by simp
  show ?thesis
    using a b short_blob_single_chunk [OF a b, of 200] short_blob_single_chunk [OF a c, of 200]
    by simp
qed

lemma chunk_blob_two: "ov < M \<Longrightarrow> M < length t \<Longrightarrow> 2 \<le> length (chunk_blob M ov t)"
proof -
  assume a: "ov < M" and b: "M < length t"
  have "chunk_blob M ov (drop (clamped_cut M ov t - ov) t) \<noteq> []" by (rule chunk_blob_nonempty)
  then have "1 \<le> length (chunk_blob M ov (drop (clamped_cut M ov t - ov) t))"
    by (simp add: Suc_le_eq)
  then show ?thesis by (simp add: chunk_blob_long [OF b a])
qed

text \<open>
  Claim C3: for a non-empty blob chunked with maximum size \<open>M\<close> and overlap \<open>ov < M\<close>,
  every chunk has at most \<open>M\<close> characters; and when the blob is longer than \<open>M\<close> there
  are at least two chunks, and for every adjacent pair the last \<open>ov\<close> characters of the
  first equal the first \<open>ov\<close> characters of the second. Proved of the chunker as the
  specification describes it.
\<close>

theorem chunks_bounded_and_overlapping:
  assumes "ov < M" and "t \<noteq> []"
  shows "(\<forall>c \<in> set (chunk_blob M ov t). length c \<le> M)
       \<and> chunk_all M ov [t] = Some (chunk_blob M ov t)
       \<and> (M < length t \<longrightarrow>
            2 \<le> length (chunk_blob M ov t)
          \<and> (\<forall>i. Suc i < length (chunk_blob M ov t) \<longrightarrow>
                ov \<le> length (chunk_blob M ov t ! i)
              \<and> ov \<le> length (chunk_blob M ov t ! Suc i)
              \<and> drop (length (chunk_blob M ov t ! i) - ov) (chunk_blob M ov t ! i)
                  = take ov (chunk_blob M ov t ! Suc i)))"
proof -
  have bounded: "\<forall>c \<in> set (chunk_blob M ov t). length c \<le> M"
    using assms(1) by (blast intro: chunk_blob_bounded)
  have whole: "chunk_all M ov [t] = Some (chunk_blob M ov t)"
    using assms(1) by (simp add: chunk_all_def)
  have two: "M < length t \<longrightarrow> 2 \<le> length (chunk_blob M ov t)"
    using assms(1) by (blast intro: chunk_blob_two)
  have pairs: "\<forall>i. Suc i < length (chunk_blob M ov t) \<longrightarrow>
                ov \<le> length (chunk_blob M ov t ! i)
              \<and> ov \<le> length (chunk_blob M ov t ! Suc i)
              \<and> drop (length (chunk_blob M ov t ! i) - ov) (chunk_blob M ov t ! i)
                  = take ov (chunk_blob M ov t ! Suc i)"
    using chunk_blob_overlap [OF assms(1)] by blast
  show ?thesis
    using bounded whole two pairs by blast
qed

theorem chunks_bounded_and_overlapping_witness:
  "(3::nat) < 12 \<and> ''the quick brown fox. It jumps'' \<noteq> []
   \<and> 12 < length ''the quick brown fox. It jumps''
   \<and> chunk_blob 12 3 ''the quick brown fox. It jumps''
        = [''the quick '', ''ck brown '', ''wn fox. '', ''x. It jumps'']
   \<and> list_all (\<lambda>c. length c \<le> 12) (chunk_blob 12 3 ''the quick brown fox. It jumps'')
   \<and> drop (length (chunk_blob 12 3 ''the quick brown fox. It jumps'' ! 0) - 3)
            (chunk_blob 12 3 ''the quick brown fox. It jumps'' ! 0)
         = take 3 (chunk_blob 12 3 ''the quick brown fox. It jumps'' ! Suc 0)
   \<and> drop (length (chunk_blob 12 3 ''the quick brown fox. It jumps'' ! 2) - 3)
            (chunk_blob 12 3 ''the quick brown fox. It jumps'' ! 2)
         = take 3 (chunk_blob 12 3 ''the quick brown fox. It jumps'' ! Suc 2)
   \<and> take 3 (chunk_blob 12 3 ''the quick brown fox. It jumps'' ! Suc 2) = ''x. ''"
proof -
  let ?t = "''the quick brown fox. It jumps''"
  have a: "(3::nat) < 12" by simp
  have b: "?t \<noteq> []" by simp
  have c: "12 < length ?t" by simp
  have d: "chunk_blob 12 3 ?t = [''the quick '', ''ck brown '', ''wn fox. '', ''x. It jumps'']"
    by code_simp
  have n: "length (chunk_blob 12 3 ?t) = 4"
    by (simp add: d)
  from chunks_bounded_and_overlapping [OF a b] c
  have bounded: "\<forall>c \<in> set (chunk_blob 12 3 ?t). length c \<le> 12"
    and pairs: "\<forall>i. Suc i < length (chunk_blob 12 3 ?t) \<longrightarrow>
         drop (length (chunk_blob 12 3 ?t ! i) - 3) (chunk_blob 12 3 ?t ! i)
           = take 3 (chunk_blob 12 3 ?t ! Suc i)"
    by blast+
  have all: "list_all (\<lambda>c. length c \<le> 12) (chunk_blob 12 3 ?t)"
    using bounded by (simp add: list_all_iff)
  have p0: "drop (length (chunk_blob 12 3 ?t ! 0) - 3) (chunk_blob 12 3 ?t ! 0)
         = take 3 (chunk_blob 12 3 ?t ! Suc 0)"
    using pairs n by simp
  have p2: "drop (length (chunk_blob 12 3 ?t ! 2) - 3) (chunk_blob 12 3 ?t ! 2)
         = take 3 (chunk_blob 12 3 ?t ! Suc 2)"
    using pairs n by simp
  have e: "take 3 (chunk_blob 12 3 ?t ! Suc 2) = ''x. ''"
    unfolding d by simp
  show ?thesis
    using a b c d all p0 p2 e by blast
qed

subsection \<open>Retrieval\<close>


lemma mset_insert_desc: "mset (insert_desc f x ys) = add_mset x (mset ys)"
  by (induction ys) auto

lemma mset_sort_desc: "mset (sort_desc f xs) = mset xs"
  by (induction xs) (auto simp: mset_insert_desc)

lemma set_sort_desc: "set (sort_desc f xs) = set xs"
  using mset_sort_desc [of f xs] by (metis set_mset_mset)

lemma length_sort_desc: "length (sort_desc f xs) = length xs"
  using mset_sort_desc [of f xs] by (metis size_mset)

lemma sorted_insert_desc:
  "sorted_wrt (ranks_before g) ys \<Longrightarrow> \<forall>y \<in> set ys. fst x < fst y \<Longrightarrow>
     sorted_wrt (ranks_before g) (insert_desc g x ys)"
proof (induction ys)
  case Nil
  then show ?case by simp
next
  case (Cons y ys)
  show ?case
  proof (cases "g y \<le> g x")
    case True
    have "\<forall>z \<in> set (y # ys). ranks_before g x z"
    proof
      fix z assume z: "z \<in> set (y # ys)"
      have "g z \<le> g y"
        using z Cons.prems(1) by (auto simp: ranks_before_def)
      then have "g z \<le> g x" using True by simp
      moreover have "fst x < fst z" using z Cons.prems(2) by blast
      ultimately show "ranks_before g x z" by (auto simp: ranks_before_def)
    qed
    then show ?thesis using True Cons.prems(1) by simp
  next
    case False
    have ih: "sorted_wrt (ranks_before g) (insert_desc g x ys)"
      using Cons by simp
    have "\<forall>z \<in> set (insert_desc g x ys). ranks_before g y z"
    proof
      fix z assume "z \<in> set (insert_desc g x ys)"
      then have "z \<in># mset (insert_desc g x ys)" by simp
      then have "z = x \<or> z \<in> set ys" by (simp add: mset_insert_desc)
      then show "ranks_before g y z"
        using False Cons.prems(1) by (auto simp: ranks_before_def)
    qed
    then show ?thesis using False ih by simp
  qed
qed

lemma sorted_sort_desc:
  "sorted_wrt (<) (map fst xs) \<Longrightarrow> sorted_wrt (ranks_before g) (sort_desc g xs)"
proof (induction xs)
  case Nil
  then show ?case by simp
next
  case (Cons x xs)
  have "\<forall>y \<in> set (sort_desc g xs). fst x < fst y"
    using Cons.prems by (auto simp: set_sort_desc)
  moreover have "sorted_wrt (ranks_before g) (sort_desc g xs)"
    using Cons by simp
  ultimately show ?case by (simp add: sorted_insert_desc)
qed

lemma ranked_sorted:
  "sorted_wrt (ranks_before (\<lambda>(i, e). sim qv (vector e))) (ranked sim index qv)"
  unfolding ranked_def by (rule sorted_sort_desc) (simp add: sorted_wrt_upt)

lemma ranked_mset: "mset (ranked sim index qv) = mset (enumerate 0 index)"
  by (simp add: ranked_def mset_sort_desc)

lemma ranked_member:
  "p \<in> set (ranked sim index qv) \<longleftrightarrow> fst p < length index \<and> snd p = index ! fst p"
  by (auto simp: ranked_def set_sort_desc in_set_enumerate_eq)

lemma ranked_positions_distinct: "distinct (map fst (ranked sim index qv))"
proof -
  have "mset (map fst (ranked sim index qv)) = mset (map fst (enumerate 0 index))"
    by (simp only: mset_map ranked_mset)
  moreover have "distinct (map fst (enumerate 0 index))" by simp
  ultimately show ?thesis by (metis mset_eq_imp_distinct_iff)
qed

lemma ranks_before_precedes:
  "a \<in> set (ranked sim index qv) \<Longrightarrow> b \<in> set (ranked sim index qv) \<Longrightarrow>
     ranks_before (\<lambda>(i, e). sim qv (vector e)) a b = precedes sim index qv (fst a) (fst b)"
  by (cases a; cases b) (auto simp: ranks_before_def precedes_def ranked_member)

text \<open>
  Claim C7: with \<open>K = 5\<close>, as both variants configure the retriever, a query returns the
  chunk texts of \<open>min 5 n\<close> entries of an index of \<open>n\<close> entries (so at most five, all
  of them when there are fewer, none when the index is empty), each entry at most once, in
  descending order of similarity with ties in insertion order, and every entry left out
  ranks after every entry returned. Proved of the index as the specification describes
  it, for any similarity measure with linearly ordered values.
\<close>

theorem retrieval_top_k:
  "length (query_index sim index qv retriever_k) = min 5 (length index)
   \<and> (index = [] \<longrightarrow> query_index sim index qv retriever_k = [])
   \<and> query_index sim index qv retriever_k
        = map (\<lambda>i. chunk_text (index ! i)) (query_positions sim index qv retriever_k)
   \<and> distinct (query_positions sim index qv retriever_k)
   \<and> (\<forall>i \<in> set (query_positions sim index qv retriever_k). i < length index)
   \<and> sorted_wrt (precedes sim index qv) (query_positions sim index qv retriever_k)
   \<and> (\<forall>i \<in> set (query_positions sim index qv retriever_k). \<forall>j < length index.
         j \<notin> set (query_positions sim index qv retriever_k) \<longrightarrow> precedes sim index qv i j)"
proof -
  let ?R = "ranked sim index qv"
  let ?g = "\<lambda>(i, e). sim qv (vector e)"
  let ?k = retriever_k
  let ?ps = "query_positions sim index qv ?k"
  have lenR: "length ?R = length index"
    by (simp add: ranked_def length_sort_desc)
  have len: "length (query_index sim index qv ?k) = min 5 (length index)"
    by (simp add: query_index_def lenR retriever_k_def min.commute)
  have empty: "index = [] \<longrightarrow> query_index sim index qv ?k = []"
    using len by auto
  have texts: "query_index sim index qv ?k = map (\<lambda>i. chunk_text (index ! i)) ?ps"
  proof -
    have "\<forall>p \<in> set (take ?k ?R). (\<lambda>(i, e). chunk_text e) p = chunk_text (index ! fst p)"
      by (auto dest!: in_set_takeD simp: ranked_member)
    then show ?thesis
      by (simp add: query_index_def query_positions_def)
  qed
  have dist: "distinct ?ps"
    unfolding query_positions_def take_map [symmetric]
    by (rule distinct_take) (rule ranked_positions_distinct)
  have range: "\<forall>i \<in> set ?ps. i < length index"
    by (auto simp: query_positions_def dest!: in_set_takeD simp: ranked_member)
  have sortedR: "sorted_wrt (ranks_before ?g) ?R" by (rule ranked_sorted)
  have sorted_take: "sorted_wrt (ranks_before ?g) (take ?k ?R)"
    using sortedR by simp
  have sorted_ps: "sorted_wrt (precedes sim index qv) ?ps"
    unfolding query_positions_def sorted_wrt_map
  proof (rule sorted_wrt_mono_rel [OF _ sorted_take])
    fix a b
    assume "a \<in> set (take ?k ?R)" and "b \<in> set (take ?k ?R)" and "ranks_before ?g a b"
    then show "precedes sim index qv (fst a) (fst b)"
      using ranks_before_precedes [of a sim index qv b] by (auto dest: in_set_takeD)
  qed
  have top: "\<forall>i \<in> set ?ps. \<forall>j < length index. j \<notin> set ?ps \<longrightarrow> precedes sim index qv i j"
  proof (intro ballI allI impI)
    fix i j
    assume i: "i \<in> set ?ps" and j: "j < length index" and nj: "j \<notin> set ?ps"
    from i obtain a where a: "a \<in> set (take ?k ?R)" and ai: "fst a = i"
      by (auto simp: query_positions_def)
    have "(j, index ! j) \<in> set ?R" using j by (simp add: ranked_member)
    then have "(j, index ! j) \<in> set (take ?k ?R) \<or> (j, index ! j) \<in> set (drop ?k ?R)"
      by (metis Un_iff append_take_drop_id set_append)
    moreover have "(j, index ! j) \<notin> set (take ?k ?R)"
      using nj by (force simp: query_positions_def)
    ultimately have b: "(j, index ! j) \<in> set (drop ?k ?R)" by blast
    have "sorted_wrt (ranks_before ?g) (take ?k ?R @ drop ?k ?R)" using sortedR by simp
    then have "ranks_before ?g a (j, index ! j)"
      using a b unfolding sorted_wrt_append by blast
    moreover have "a \<in> set ?R" using a by (rule in_set_takeD)
    moreover have "(j, index ! j) \<in> set ?R" using b by (rule in_set_dropD)
    ultimately show "precedes sim index qv i j"
      using ranks_before_precedes [of a sim index qv "(j, index ! j)"] ai by simp
  qed
  show ?thesis
    using len empty texts dist range sorted_ps top by blast
qed

lemma sample_positions:
  "query_positions closeness sample_index 9 retriever_k = [1, 4, 3, 0, 2]"
  by (simp add: query_positions_def ranked_def sample_index_def retriever_k_def closeness_def
      enumerate_eq_zip upt_rec)

theorem retrieval_top_k_witness:
  "query_positions closeness sample_index 9 retriever_k = [1, 4, 3, 0, 2]
   \<and> query_index closeness sample_index 9 retriever_k = [''c1'', ''c4'', ''c3'', ''c0'', ''c2'']
   \<and> (6::nat) < length sample_index \<and> 6 \<notin> set (query_positions closeness sample_index 9 retriever_k)
   \<and> precedes closeness sample_index 9 2 6
   \<and> precedes closeness sample_index 9 0 2
   \<and> query_index closeness ([] :: int index_entry list) 9 retriever_k = []"
proof -
  have p: "query_positions closeness sample_index 9 retriever_k = [1, 4, 3, 0, 2]"
    by (rule sample_positions)
  have l: "(6::nat) < length sample_index"
    by (simp add: sample_index_def)
  have t: "map (\<lambda>i. chunk_text (sample_index ! i)) [1, 4, 3, 0, 2] = [''c1'', ''c4'', ''c3'', ''c0'', ''c2'']"
    by (simp add: sample_index_def)
  have e: "query_index closeness ([] :: int index_entry list) 9 retriever_k = []"
    using retrieval_top_k [of closeness "[] :: int index_entry list" 9] by blast
  from retrieval_top_k [of closeness sample_index 9]
  have q: "query_index closeness sample_index 9 retriever_k
        = map (\<lambda>i. chunk_text (sample_index ! i)) (query_positions closeness sample_index 9 retriever_k)"
    and top: "\<forall>i \<in> set (query_positions closeness sample_index 9 retriever_k). \<forall>j < length sample_index.
         j \<notin> set (query_positions closeness sample_index 9 retriever_k) \<longrightarrow> precedes closeness sample_index 9 i j"
    and srt: "sorted_wrt (precedes closeness sample_index 9) (query_positions closeness sample_index 9 retriever_k)"
    by blast+
  have a: "precedes closeness sample_index 9 2 6"
    using top l by (simp add: p)
  have b: "precedes closeness sample_index 9 0 2"
    using srt by (simp add: p)
  show ?thesis
    using p q t l a b e by simp
qed

subsection \<open>The two variants\<close>




lemma memory_starts_with_split:
  assumes "truthy (get_prop req_body ''question'')"
    and "Debate_find env (rag_query (get_prop req_body ''clientId'')) = Inr ds" and "ds \<noteq> []"
  shows "take 2 (snd (chat_rag_memory env req_body)) =
           [StoreFind (rag_query (get_prop req_body ''clientId'')), SplitCall 2000 200 (debateTexts ds)]"
  using assms
  by (simp add: chat_rag_memory_def rag_try_memory_def run_defs Let_def split: sum.splits prod.splits)

lemma faiss_starts_with_split:
  assumes "truthy (get_prop req_body ''question'')"
    and "Debate_find env (rag_query (get_prop req_body ''clientId'')) = Inr ds" and "ds \<noteq> []"
  shows "take 2 (snd (chat_rag_faiss env req_body)) =
           [StoreFind (rag_query (get_prop req_body ''clientId'')), SplitCall 1000 200 (debateTexts ds)]"
  using assms
  by (simp add: chat_rag_faiss_def rag_try_faiss_def run_defs Let_def split: sum.splits prod.splits)

text \<open>
  Claim C1, as the code has it: for the same request body and the same answers of the
  document store, the two variants return the same response after the same calls whenever
  the request ends before chunking (question absent or falsy, store failure, no matching
  record); otherwise both send the same store query and hand the same flattened texts,
  with overlap 200, to the splitter, \<^verbatim>\<open>server3.js\<close> with chunk size 2000 and \<^verbatim>\<open>part_000\<close>
  with chunk size 1000.
\<close>

theorem variants_agree_before_chunking:
  "(\<not> truthy (get_prop req_body ''question'')
      \<or> Debate_find env (rag_query (get_prop req_body ''clientId'')) = Inl e
      \<or> Debate_find env (rag_query (get_prop req_body ''clientId'')) = Inr []
    \<longrightarrow> chat_rag_memory env req_body = chat_rag_faiss env req_body)
   \<and> (truthy (get_prop req_body ''question'')
      \<and> Debate_find env (rag_query (get_prop req_body ''clientId'')) = Inr ds \<and> ds \<noteq> []
    \<longrightarrow> take 2 (snd (chat_rag_memory env req_body)) =
          [StoreFind (rag_query (get_prop req_body ''clientId'')), SplitCall 2000 200 (debateTexts ds)]
      \<and> take 2 (snd (chat_rag_faiss env req_body)) =
          [StoreFind (rag_query (get_prop req_body ''clientId'')), SplitCall 1000 200 (debateTexts ds)])"
proof -
  have early: "\<not> truthy (get_prop req_body ''question'')
      \<or> Debate_find env (rag_query (get_prop req_body ''clientId'')) = Inl e
      \<or> Debate_find env (rag_query (get_prop req_body ''clientId'')) = Inr []
    \<longrightarrow> chat_rag_memory env req_body = chat_rag_faiss env req_body"
    by (auto simp: chat_rag_memory_def chat_rag_faiss_def rag_try_memory_def rag_try_faiss_def
        run_defs Let_def)
  show ?thesis
    using early memory_starts_with_split [of req_body env ds] faiss_starts_with_split [of req_body env ds]
    by blast
qed

lemma sample_store_all:
  "store_find sample_debates EmptyFilter =
     [sample_debate ''u2'' ''Tax'' [] 20,
      sample_debate ''u1'' ''Cats''
        [sample_turn ''user'' ''Cats rule.'', sample_turn ''ai'' ''Dogs drool.''] 10]"
  by (simp add: store_find_def sample_debates_def sample_debate_def)

theorem variants_agree_before_chunking_witness:
  "Debate_find down_env (rag_query (get_prop [(''question'', Str ''Who won?'')] ''clientId'')) = Inl offline
   \<and> chat_rag_memory down_env [(''question'', Str ''Who won?'')]
       = chat_rag_faiss down_env [(''question'', Str ''Who won?'')]
   \<and> truthy (get_prop [(''question'', Str ''Who won?'')] ''question'')
   \<and> Debate_find (sample_env sample_debates)
         (rag_query (get_prop [(''question'', Str ''Who won?'')] ''clientId''))
       = Inr (store_find sample_debates EmptyFilter)
   \<and> store_find sample_debates EmptyFilter \<noteq> []
   \<and> take 2 (snd (chat_rag_memory (sample_env sample_debates) [(''question'', Str ''Who won?'')]))
       = [StoreFind EmptyFilter, SplitCall 2000 200 (debateTexts (store_find sample_debates EmptyFilter))]
   \<and> take 2 (snd (chat_rag_faiss (sample_env sample_debates) [(''question'', Str ''Who won?'')]))
       = [StoreFind EmptyFilter, SplitCall 1000 200 (debateTexts (store_find sample_debates EmptyFilter))]"
proof -
  let ?b = "[(''question'', Str ''Who won?'')]"
  have q: "truthy (get_prop ?b ''question'')"
    by (simp add: get_prop_def)
  have c: "rag_query (get_prop ?b ''clientId'') = EmptyFilter"
    by (simp add: get_prop_def rag_query_def)
  have d: "Debate_find down_env (rag_query (get_prop ?b ''clientId'')) = Inl offline"
    by (simp add: down_env_def)
  have f: "Debate_find (sample_env sample_debates) (rag_query (get_prop ?b ''clientId''))
       = Inr (store_find sample_debates EmptyFilter)"
    by (simp add: c sample_env_def)
  have n: "store_find sample_debates EmptyFilter \<noteq> []"
    by (simp add: sample_store_all)
  have A: "chat_rag_memory down_env ?b = chat_rag_faiss down_env ?b"
    using d variants_agree_before_chunking [of ?b down_env offline "[]"] by blast
  have B: "take 2 (snd (chat_rag_memory (sample_env sample_debates) ?b)) =
          [StoreFind (rag_query (get_prop ?b ''clientId'')),
           SplitCall 2000 200 (debateTexts (store_find sample_debates EmptyFilter))]
      \<and> take 2 (snd (chat_rag_faiss (sample_env sample_debates) ?b)) =
          [StoreFind (rag_query (get_prop ?b ''clientId'')),
           SplitCall 1000 200 (debateTexts (store_find sample_debates EmptyFilter))]"
    using q f n
      variants_agree_before_chunking [of ?b "sample_env sample_debates" offline
        "store_find sample_debates EmptyFilter"]
    by blast
  show ?thesis
    using q d f n A B unfolding c by blast
qed

text \<open>
  The variants are not interchangeable. With the chunker as the specification describes
  it and one stored debate whose text has 1537 characters, \<^verbatim>\<open>server3.js\<close> (chunk size 2000)
  indexes the text as one chunk and \<^verbatim>\<open>part_000\<close> (chunk size 1000) indexes two or more
  chunks of at most 1000 characters: what can be retrieved differs.
\<close>

lemma long_text_length: "length (debate_text long_debate) = 1537"
  by (simp add: debate_text_def long_debate_def sample_debate_def sample_turn_def chat_line_def
      dquote_def newline_def)

lemma store_single: "store_find [d] EmptyFilter = [d]"
  by (simp add: store_find_def)

lemma long_memory_docs:
  "indexed_docs (snd (chat_rag_memory (sample_env [long_debate]) [(''question'', Str ''Who won?'')]))
     = [[debate_text long_debate]]"
proof -
  have c: "chunk_all 2000 200 [debate_text long_debate] = Some [debate_text long_debate]"
    by (simp add: chunk_all_def chunk_blob_short long_text_length)
  show ?thesis
    by (simp add: chat_rag_memory_def rag_try_memory_def run_defs Let_def get_prop_def
        rag_query_def sample_env_def down_env_def store_single debateTexts_def c)
qed

lemma long_faiss_docs:
  "indexed_docs (snd (chat_rag_faiss (sample_env [long_debate]) [(''question'', Str ''Who won?'')]))
     = [chunk_blob 1000 200 (debate_text long_debate)]"
proof -
  have c: "chunk_all 1000 200 [debate_text long_debate] = Some (chunk_blob 1000 200 (debate_text long_debate))"
    by (simp add: chunk_all_def)
  show ?thesis
    by (simp add: chat_rag_faiss_def rag_try_faiss_def run_defs Let_def get_prop_def
        rag_query_def sample_env_def down_env_def store_single debateTexts_def c)
qed

theorem variants_differ_counterexample:
  "indexed_docs (snd (chat_rag_memory (sample_env [long_debate]) [(''question'', Str ''Who won?'')]))
     = [[debate_text long_debate]]
   \<and> indexed_docs (snd (chat_rag_faiss (sample_env [long_debate]) [(''question'', Str ''Who won?'')]))
     = [chunk_blob 1000 200 (debate_text long_debate)]
   \<and> 2 \<le> length (chunk_blob 1000 200 (debate_text long_debate))
   \<and> chat_rag_memory (sample_env [long_debate]) [(''question'', Str ''Who won?'')]
       \<noteq> chat_rag_faiss (sample_env [long_debate]) [(''question'', Str ''Who won?'')]"
proof -
  have two: "2 \<le> length (chunk_blob 1000 200 (debate_text long_debate))"
    by (rule chunk_blob_two) (simp_all add: long_text_length)
  have ne: "[[debate_text long_debate]] \<noteq> [chunk_blob 1000 200 (debate_text long_debate)]"
  proof
    assume "[[debate_text long_debate]] = [chunk_blob 1000 200 (debate_text long_debate)]"
    then have "length (chunk_blob 1000 200 (debate_text long_debate)) = length [debate_text long_debate]"
      by simp
    with two show False by simp
  qed
  have "indexed_docs (snd (chat_rag_memory (sample_env [long_debate]) [(''question'', Str ''Who won?'')]))
      \<noteq> indexed_docs (snd (chat_rag_faiss (sample_env [long_debate]) [(''question'', Str ''Who won?'')]))"
    unfolding long_memory_docs long_faiss_docs by (rule ne)
  then have "chat_rag_memory (sample_env [long_debate]) [(''question'', Str ''Who won?'')]
       \<noteq> chat_rag_faiss (sample_env [long_debate]) [(''question'', Str ''Who won?'')]"
    by auto
  then show ?thesis
    using long_memory_docs long_faiss_docs two by blast
qed

subsection \<open>Requests without a client id\<close>

lemma mset_store_find_all: "mset (store_find db EmptyFilter) = mset db"
  by (simp add: store_find_def mset_sort_desc)

text \<open>
  What holds of both variants when the body has no \<^verbatim>\<open>clientId\<close> or a falsy one: the
  filter of the store query is empty; a document store holding the records \<open>db\<close> then
  returns every one of them, whatever its client, and both variants hand the flattened
  text of every record to the splitter. In \<^verbatim>\<open>server3.js\<close>, when the chunking, the index
  build, the retrieval and the generation succeed, the reply is what the generator returns
  for the context retrieved from those chunks: it is computed from the records of all
  clients.
\<close>

theorem missing_client_id_loads_all_records:
  assumes "\<not> truthy (get_prop req_body ''clientId'')"
    and "truthy (get_prop req_body ''question'')"
    and "Debate_find env EmptyFilter = Inr (store_find db EmptyFilter)"
    and "db \<noteq> []"
  shows "rag_query (get_prop req_body ''clientId'') = EmptyFilter
     \<and> mset (store_find db EmptyFilter) = mset db
     \<and> take 2 (snd (chat_rag_memory env req_body))
         = [StoreFind EmptyFilter, SplitCall 2000 200 (debateTexts (store_find db EmptyFilter))]
     \<and> take 2 (snd (chat_rag_faiss env req_body))
         = [StoreFind EmptyFilter, SplitCall 1000 200 (debateTexts (store_find db EmptyFilter))]
     \<and> (\<forall>d \<in> set db. debate_text d \<in> set (debateTexts (store_find db EmptyFilter)))
     \<and> (\<forall>splitDocs vectorStore docs result.
          createDocuments env 2000 200 (debateTexts (store_find db EmptyFilter)) = Inr splitDocs
          \<and> fromDocuments env MemoryVectorStore_FastEmbed splitDocs = Inr vectorStore
          \<and> retrieve env vectorStore 5 (Obj [(''question'', get_prop req_body ''question'')]) = Inr docs
          \<and> generate env (formatDocumentsAsString env docs) (get_prop req_body ''question'') = Inr result
          \<longrightarrow> fst (chat_rag_memory env req_body)
                = \<lparr>status = 200, body = [(''success'', PBool True), (''reply'', PStr result)]\<rparr>)"
proof -
  have q: "rag_query (get_prop req_body ''clientId'') = EmptyFilter"
    using assms(1) by (simp add: rag_query_def)
  have all: "mset (store_find db EmptyFilter) = mset db"
    by (rule mset_store_find_all)
  have ne: "store_find db EmptyFilter \<noteq> []"
    using all assms(4) by (metis mset_zero_iff)
  have f: "Debate_find env (rag_query (get_prop req_body ''clientId'')) = Inr (store_find db EmptyFilter)"
    using assms(3) by (simp add: q)
  have m: "take 2 (snd (chat_rag_memory env req_body))
         = [StoreFind EmptyFilter, SplitCall 2000 200 (debateTexts (store_find db EmptyFilter))]"
    using memory_starts_with_split [OF assms(2) f ne] by (simp add: q)
  have fa: "take 2 (snd (chat_rag_faiss env req_body))
         = [StoreFind EmptyFilter, SplitCall 1000 200 (debateTexts (store_find db EmptyFilter))]"
    using faiss_starts_with_split [OF assms(2) f ne] by (simp add: q)
  have texts: "\<forall>d \<in> set db. debate_text d \<in> set (debateTexts (store_find db EmptyFilter))"
  proof
    fix d assume "d \<in> set db"
    then have "d \<in> set (store_find db EmptyFilter)"
      using all by (metis set_mset_mset)
    then show "debate_text d \<in> set (debateTexts (store_find db EmptyFilter))"
      by (simp add: debateTexts_def)
  qed
  have flow: "\<forall>splitDocs vectorStore docs result.
          createDocuments env 2000 200 (debateTexts (store_find db EmptyFilter)) = Inr splitDocs
          \<and> fromDocuments env MemoryVectorStore_FastEmbed splitDocs = Inr vectorStore
          \<and> retrieve env vectorStore 5 (Obj [(''question'', get_prop req_body ''question'')]) = Inr docs
          \<and> generate env (formatDocumentsAsString env docs) (get_prop req_body ''question'') = Inr result
          \<longrightarrow> fst (chat_rag_memory env req_body)
                = \<lparr>status = 200, body = [(''success'', PBool True), (''reply'', PStr result)]\<rparr>"
    using assms(2) f ne
    by (simp add: chat_rag_memory_def rag_try_memory_def run_defs Let_def retriever_k_def get_prop_def)
  show ?thesis
    using q all m fa texts flow by blast
qed

lemma sample_loaded_texts:
  "debateTexts (store_find sample_debates EmptyFilter) = [tax_text, cats_text]"
  by (simp add: sample_store_all debateTexts_def debate_text_def sample_debate_def
      sample_turn_def chat_line_def tax_text_def cats_text_def)

lemma sample_texts_chunked:
  "chunk_all 2000 200 [tax_text, cats_text] = Some [tax_text, cats_text]"
proof -
  have "length tax_text \<le> 2000" and "length cats_text \<le> 2000"
    by (simp_all add: tax_text_def cats_text_def dquote_def newline_def)
  then show ?thesis
    by (simp add: chunk_all_def chunk_blob_short)
qed

lemma sample_texts_chunked_1000:
  "chunk_all 1000 200 [tax_text, cats_text] = Some [tax_text, cats_text]"
proof -
  have "length tax_text \<le> 1000" and "length cats_text \<le> 1000"
    by (simp_all add: tax_text_def cats_text_def dquote_def newline_def)
  then show ?thesis
    by (simp add: chunk_all_def chunk_blob_short)
qed

theorem missing_client_id_loads_all_records_witness:
  "\<not> truthy (get_prop [(''question'', Str ''Who won?'')] ''clientId'')
   \<and> truthy (get_prop [(''question'', Str ''Who won?'')] ''question'')
   \<and> Debate_find (sample_env sample_debates) EmptyFilter = Inr (store_find sample_debates EmptyFilter)
   \<and> sample_debates \<noteq> []
   \<and> debateTexts (store_find sample_debates EmptyFilter) = [tax_text, cats_text]
   \<and> createDocuments (sample_env sample_debates) 2000 200 [tax_text, cats_text] = Inr [tax_text, cats_text]
   \<and> fromDocuments (sample_env sample_debates) MemoryVectorStore_FastEmbed [tax_text, cats_text]
        = Inr [tax_text, cats_text]
   \<and> retrieve (sample_env sample_debates) [tax_text, cats_text] 5 (Obj [(''question'', Str ''Who won?'')])
        = Inr [tax_text, cats_text]
   \<and> generate (sample_env sample_debates) (tax_text @ newline @ newline @ cats_text) (Str ''Who won?'')
        = Inr (tax_text @ newline @ newline @ cats_text)
   \<and> fst (chat_rag_memory (sample_env sample_debates) [(''question'', Str ''Who won?'')])
        = \<lparr>status = 200, body = [(''success'', PBool True),
             (''reply'', PStr (tax_text @ newline @ newline @ cats_text))]\<rparr>"
proof -
  let ?b = "[(''question'', Str ''Who won?'')]"
  let ?env = "sample_env sample_debates"
  have c: "\<not> truthy (get_prop ?b ''clientId'')"
    by (simp add: get_prop_def)
  have q: "truthy (get_prop ?b ''question'')"
    by (simp add: get_prop_def)
  have qv: "get_prop ?b ''question'' = Str ''Who won?''"
    by (simp add: get_prop_def)
  have f: "Debate_find ?env EmptyFilter = Inr (store_find sample_debates EmptyFilter)"
    by (simp add: sample_env_def)
  have n: "sample_debates \<noteq> []"
    by (simp add: sample_debates_def)
  have s: "createDocuments ?env 2000 200 [tax_text, cats_text] = Inr [tax_text, cats_text]"
    by (simp add: sample_env_def sample_texts_chunked)
  have i: "fromDocuments ?env MemoryVectorStore_FastEmbed [tax_text, cats_text] = Inr [tax_text, cats_text]"
    by (simp add: sample_env_def)
  have r: "retrieve ?env [tax_text, cats_text] 5 (Obj [(''question'', Str ''Who won?'')])
        = Inr [tax_text, cats_text]"
    by (simp add: sample_env_def)
  have k: "formatDocumentsAsString ?env [tax_text, cats_text] = tax_text @ newline @ newline @ cats_text"
    by (simp add: sample_env_def down_env_def)
  have g: "generate ?env (tax_text @ newline @ newline @ cats_text) (Str ''Who won?'')
        = Inr (tax_text @ newline @ newline @ cats_text)"
    by (simp add: sample_env_def)
  from missing_client_id_loads_all_records [OF c q f n]
  have "\<forall>splitDocs vectorStore docs result.
          createDocuments ?env 2000 200 (debateTexts (store_find sample_debates EmptyFilter)) = Inr splitDocs
          \<and> fromDocuments ?env MemoryVectorStore_FastEmbed splitDocs = Inr vectorStore
          \<and> retrieve ?env vectorStore 5 (Obj [(''question'', get_prop ?b ''question'')]) = Inr docs
          \<and> generate ?env (formatDocumentsAsString ?env docs) (get_prop ?b ''question'') = Inr result
          \<longrightarrow> fst (chat_rag_memory ?env ?b)
                = \<lparr>status = 200, body = [(''success'', PBool True), (''reply'', PStr result)]\<rparr>"
    by blast
  then have "createDocuments ?env 2000 200 [tax_text, cats_text] = Inr [tax_text, cats_text]
          \<and> fromDocuments ?env MemoryVectorStore_FastEmbed [tax_text, cats_text] = Inr [tax_text, cats_text]
          \<and> retrieve ?env [tax_text, cats_text] 5 (Obj [(''question'', Str ''Who won?'')]) = Inr [tax_text, cats_text]
          \<and> generate ?env (tax_text @ newline @ newline @ cats_text) (Str ''Who won?'')
               = Inr (tax_text @ newline @ newline @ cats_text)
          \<longrightarrow> fst (chat_rag_memory ?env ?b)
                = \<lparr>status = 200, body = [(''success'', PBool True),
                     (''reply'', PStr (tax_text @ newline @ newline @ cats_text))]\<rparr>"
    unfolding sample_loaded_texts qv using k by metis
  then show ?thesis
    using c q f n sample_loaded_texts s i r g by blast
qed

text \<open>With a client id, the store returns that client's records only.\<close>

lemma sample_store_by_client:
  "store_find sample_debates (rag_query (Str ''u1'')) =
     [sample_debate ''u1'' ''Cats''
        [sample_turn ''user'' ''Cats rule.'', sample_turn ''ai'' ''Dogs drool.''] 10]"
  by (simp add: store_find_def rag_query_def sample_debates_def sample_debate_def)

text \<open>
  In \<^verbatim>\<open>part_000\<close> the chain is never run: once the records are loaded, chunked and
  indexed, line 187 throws, whatever the collaborators answer.
\<close>

lemma faiss_generates_no_reply:
  assumes "truthy (get_prop req_body ''question'')"
    and "Debate_find env (rag_query (get_prop req_body ''clientId'')) = Inr ds" and "ds \<noteq> []"
  shows "fst (chat_rag_faiss env req_body) = rag_failure
       \<and> \<not> list_ex invokes_generator (snd (chat_rag_faiss env req_body))"
  using assms
  by (auto simp: chat_rag_faiss_def rag_try_faiss_def run_defs Let_def split: sum.splits prod.splits)

text \<open>
  Claim C10: a \<^verbatim>\<open>POST /api/chat/rag\<close> request without a client id loads the records of
  every client, and the generated reply can depend on the records of other clients. At the
  body \<^verbatim>\<open>{"question": "Who won?"}\<close>, with debates of the clients \<^verbatim>\<open>u1\<close> and \<^verbatim>\<open>u2\<close> stored
  and every collaborator answering, \<^verbatim>\<open>server3.js\<close> replies with a text computed from both
  clients' debates, while \<^verbatim>\<open>part_000\<close> loads, chunks and indexes the same records and then
  answers 500 with the fixed failure message, without retrieving or generating; with a
  different store its response is the same.
\<close>

theorem part_000_generates_no_reply:
  "chat_rag_faiss (sample_env sample_debates) [(''question'', Str ''Who won?'')] =
     (\<lparr>status = 500, body =
         [(''success'', PBool False),
          (''message'', PStr ''An error occurred while processing your request.'')]\<rparr>,
      [StoreFind EmptyFilter,
       SplitCall 1000 200 [tax_text, cats_text],
       EmbedAndIndex FaissStore_HuggingFace [tax_text, cats_text],
       ConsoleError ''RAG chat error:'' pipe_TypeError])
   \<and> chat_rag_memory (sample_env sample_debates) [(''question'', Str ''Who won?'')] =
     (\<lparr>status = 200, body =
         [(''success'', PBool True),
          (''reply'', PStr (tax_text @ newline @ newline @ cats_text))]\<rparr>,
      [StoreFind EmptyFilter,
       SplitCall 2000 200 [tax_text, cats_text],
       EmbedAndIndex MemoryVectorStore_FastEmbed [tax_text, cats_text],
       Retrieve 5 (Obj [(''question'', Str ''Who won?'')]),
       Generate (tax_text @ newline @ newline @ cats_text) (Str ''Who won?'')])
   \<and> chat_rag_faiss (sample_env [long_debate]) [(''question'', Str ''Who won?'')] =
     (\<lparr>status = 500, body =
         [(''success'', PBool False),
          (''message'', PStr ''An error occurred while processing your request.'')]\<rparr>,
      [StoreFind EmptyFilter,
       SplitCall 1000 200 [debate_text long_debate],
       EmbedAndIndex FaissStore_HuggingFace (chunk_blob 1000 200 (debate_text long_debate)),
       ConsoleError ''RAG chat error:'' pipe_TypeError])"
proof -
  let ?b = "[(''question'', Str ''Who won?'')]"
  have n: "store_find sample_debates EmptyFilter \<noteq> []"
    by (simp add: sample_store_all)
  have f: "chat_rag_faiss (sample_env sample_debates) ?b =
     (rag_failure,
      [StoreFind EmptyFilter,
       SplitCall 1000 200 [tax_text, cats_text],
       EmbedAndIndex FaissStore_HuggingFace [tax_text, cats_text],
       ConsoleError ''RAG chat error:'' pipe_TypeError])"
    by (simp add: chat_rag_faiss_def rag_try_faiss_def run_defs Let_def get_prop_def rag_query_def
        sample_env_def down_env_def sample_loaded_texts sample_texts_chunked_1000 n)
  have m: "chat_rag_memory (sample_env sample_debates) ?b =
     (\<lparr>status = 200, body =
         [(''success'', PBool True),
          (''reply'', PStr (tax_text @ newline @ newline @ cats_text))]\<rparr>,
      [StoreFind EmptyFilter,
       SplitCall 2000 200 [tax_text, cats_text],
       EmbedAndIndex MemoryVectorStore_FastEmbed [tax_text, cats_text],
       Retrieve 5 (Obj [(''question'', Str ''Who won?'')]),
       Generate (tax_text @ newline @ newline @ cats_text) (Str ''Who won?'')])"
    by (simp add: chat_rag_memory_def rag_try_memory_def run_defs Let_def get_prop_def rag_query_def
        retriever_k_def sample_env_def down_env_def sample_loaded_texts sample_texts_chunked n)
  have l: "chat_rag_faiss (sample_env [long_debate]) ?b =
     (rag_failure,
      [StoreFind EmptyFilter,
       SplitCall 1000 200 [debate_text long_debate],
       EmbedAndIndex FaissStore_HuggingFace (chunk_blob 1000 200 (debate_text long_debate)),
       ConsoleError ''RAG chat error:'' pipe_TypeError])"
    by (simp add: chat_rag_faiss_def rag_try_faiss_def run_defs Let_def get_prop_def rag_query_def
        sample_env_def down_env_def store_single debateTexts_def chunk_all_def)
  show ?thesis
    using f m l by (simp add: rag_failure_def)
qed

subsection \<open>Failures\<close>

lemma memory_failure_cases:
  assumes "truthy (get_prop req_body ''question'')"
  shows "Debate_find env (rag_query (get_prop req_body ''clientId'')) = Inl e \<Longrightarrow>
           chat_rag_memory env req_body =
             (rag_failure, [StoreFind (rag_query (get_prop req_body ''clientId'')),
                            ConsoleError ''RAG chat error:'' e])"
    and "Debate_find env (rag_query (get_prop req_body ''clientId'')) = Inr ds \<Longrightarrow> ds \<noteq> [] \<Longrightarrow>
         createDocuments env 2000 200 (debateTexts ds) = Inl e \<Longrightarrow>
           chat_rag_memory env req_body =
             (rag_failure, [StoreFind (rag_query (get_prop req_body ''clientId'')),
                            SplitCall 2000 200 (debateTexts ds),
                            ConsoleError ''RAG chat error:'' e])"
    and "Debate_find env (rag_query (get_prop req_body ''clientId'')) = Inr ds \<Longrightarrow> ds \<noteq> [] \<Longrightarrow>
         createDocuments env 2000 200 (debateTexts ds) = Inr sd \<Longrightarrow>
         fromDocuments env MemoryVectorStore_FastEmbed sd = Inl e \<Longrightarrow>
           chat_rag_memory env req_body =
             (rag_failure, [StoreFind (rag_query (get_prop req_body ''clientId'')),
                            SplitCall 2000 200 (debateTexts ds),
                            EmbedAndIndex MemoryVectorStore_FastEmbed sd,
                            ConsoleError ''RAG chat error:'' e])"
    and "Debate_find env (rag_query (get_prop req_body ''clientId'')) = Inr ds \<Longrightarrow> ds \<noteq> [] \<Longrightarrow>
         createDocuments env 2000 200 (debateTexts ds) = Inr sd \<Longrightarrow>
         fromDocuments env MemoryVectorStore_FastEmbed sd = Inr vs \<Longrightarrow>
         retrieve env vs 5 (Obj [(''question'', get_prop req_body ''question'')]) = Inl e \<Longrightarrow>
           chat_rag_memory env req_body =
             (rag_failure, [StoreFind (rag_query (get_prop req_body ''clientId'')),
                            SplitCall 2000 200 (debateTexts ds),
                            EmbedAndIndex MemoryVectorStore_FastEmbed sd,
                            Retrieve 5 (Obj [(''question'', get_prop req_body ''question'')]),
                            ConsoleError ''RAG chat error:'' e])"
    and "Debate_find env (rag_query (get_prop req_body ''clientId'')) = Inr ds \<Longrightarrow> ds \<noteq> [] \<Longrightarrow>
         createDocuments env 2000 200 (debateTexts ds) = Inr sd \<Longrightarrow>
         fromDocuments env MemoryVectorStore_FastEmbed sd = Inr vs \<Longrightarrow>
         retrieve env vs 5 (Obj [(''question'', get_prop req_body ''question'')]) = Inr docs \<Longrightarrow>
         generate env (formatDocumentsAsString env docs) (get_prop req_body ''question'') = Inl e \<Longrightarrow>
           chat_rag_memory env req_body =
             (rag_failure, [StoreFind (rag_query (get_prop req_body ''clientId'')),
                            SplitCall 2000 200 (debateTexts ds),
                            EmbedAndIndex MemoryVectorStore_FastEmbed sd,
                            Retrieve 5 (Obj [(''question'', get_prop req_body ''question'')]),
                            Generate (formatDocumentsAsString env docs) (get_prop req_body ''question''),
                            ConsoleError ''RAG chat error:'' e])"
  using assms
  by (simp_all add: chat_rag_memory_def rag_try_memory_def run_defs Let_def retriever_k_def
      get_prop_def [of "[(''question'', q)]" for q])

lemma faiss_failure_cases:
  assumes "truthy (get_prop req_body ''question'')"
  shows "Debate_find env (rag_query (get_prop req_body ''clientId'')) = Inl e \<Longrightarrow>
           chat_rag_faiss env req_body =
             (rag_failure, [StoreFind (rag_query (get_prop req_body ''clientId'')),
                            ConsoleError ''RAG chat error:'' e])"
    and "Debate_find env (rag_query (get_prop req_body ''clientId'')) = Inr ds \<Longrightarrow> ds \<noteq> [] \<Longrightarrow>
         createDocuments env 1000 200 (debateTexts ds) = Inl e \<Longrightarrow>
           chat_rag_faiss env req_body =
             (rag_failure, [StoreFind (rag_query (get_prop req_body ''clientId'')),
                            SplitCall 1000 200 (debateTexts ds),
                            ConsoleError ''RAG chat error:'' e])"
    and "Debate_find env (rag_query (get_prop req_body ''clientId'')) = Inr ds \<Longrightarrow> ds \<noteq> [] \<Longrightarrow>
         createDocuments env 1000 200 (debateTexts ds) = Inr sd \<Longrightarrow>
         fromDocuments env FaissStore_HuggingFace sd = Inl e \<Longrightarrow>
           chat_rag_faiss env req_body =
             (rag_failure, [StoreFind (rag_query (get_prop req_body ''clientId'')),
                            SplitCall 1000 200 (debateTexts ds),
                            EmbedAndIndex FaissStore_HuggingFace sd,
                            ConsoleError ''RAG chat error:'' e])"
    and "Debate_find env (rag_query (get_prop req_body ''clientId'')) = Inr ds \<Longrightarrow> ds \<noteq> [] \<Longrightarrow>
         createDocuments env 1000 200 (debateTexts ds) = Inr sd \<Longrightarrow>
         fromDocuments env FaissStore_HuggingFace sd = Inr vs \<Longrightarrow>
           chat_rag_faiss env req_body =
             (rag_failure, [StoreFind (rag_query (get_prop req_body ''clientId'')),
                            SplitCall 1000 200 (debateTexts ds),
                            EmbedAndIndex FaissStore_HuggingFace sd,
                            ConsoleError ''RAG chat error:'' pipe_TypeError])"
  using assms
  by (simp_all add: chat_rag_faiss_def rag_try_faiss_def run_defs Let_def)

lemma memory_error_bodies:
  "status (fst (chat_rag_memory env req_body)) \<noteq> 200 \<Longrightarrow>
     fst (chat_rag_memory env req_body) = question_required
     \<or> fst (chat_rag_memory env req_body) = rag_failure"
  by (auto simp: chat_rag_memory_def rag_try_memory_def run_defs Let_def no_history_def
      split: sum.splits prod.splits if_splits)

lemma faiss_error_bodies:
  "status (fst (chat_rag_faiss env req_body)) \<noteq> 200 \<Longrightarrow>
     fst (chat_rag_faiss env req_body) = question_required
     \<or> fst (chat_rag_faiss env req_body) = rag_failure"
  by (auto simp: chat_rag_faiss_def rag_try_faiss_def run_defs Let_def no_history_def
      split: sum.splits prod.splits if_splits)

lemma crud_failure_cases:
  shows "Debate_list env = Inl e \<Longrightarrow>
           get_debates env =
             (\<lparr>status = 500, body =
                [(''success'', PBool False),
                 (''message'', PStr ''An error occurred while fetching debates.''),
                 (''error'', PStr (err_message e))]\<rparr>,
              [StoreList, ConsoleError ''Error fetching all debates:'' e])"
    and "ObjectId_isValid env debateId \<Longrightarrow> Debate_findById env debateId = Inl e \<Longrightarrow>
           get_debate_by_id env debateId =
             (\<lparr>status = 500, body =
                [(''success'', PBool False),
                 (''message'', PStr ''An error occurred while fetching debate details.''),
                 (''error'', PStr (err_message e))]\<rparr>,
              [StoreFindById debateId, ConsoleError ''Error fetching debate details:'' e])"
    and "Debate_save env new_debate = Inl e \<Longrightarrow> err_name e = ''ValidationError'' \<Longrightarrow>
           post_debates env new_debate =
             (\<lparr>status = 400, body =
                [(''success'', PBool False), (''message'', PStr ''Validation Error''),
                 (''error'', PStr (err_message e))]\<rparr>,
              [StoreSave new_debate, ConsoleError ''Error creating debate:'' e])"
    and "Debate_save env new_debate = Inl e \<Longrightarrow> err_name e \<noteq> ''ValidationError'' \<Longrightarrow>
           post_debates env new_debate =
             (\<lparr>status = 500, body =
                [(''success'', PBool False),
                 (''message'', PStr ''An error occurred while creating the debate.''),
                 (''error'', PStr (err_message e))]\<rparr>,
              [StoreSave new_debate, ConsoleError ''Error creating debate:'' e])"
  by (simp_all add: get_debates_def get_debate_by_id_def post_debates_def run_defs)

text \<open>
  Claim C4, as the code has it: on \<^verbatim>\<open>POST /api/chat/rag\<close>, whichever stage throws (the store
  query, the splitter, the index build, the retriever, the generator, or in \<^verbatim>\<open>part_000\<close>
  the assembly of the chain), the response is 500 and its body is exactly
  \<^verbatim>\<open>success: false\<close> with the fixed message ``An error occurred while processing your
  request.''; nothing of the error is in it, and the error itself goes to the console.
  Every response of the chat route that is not a 200 is that body or the 400 of the
  question guard. The three debate routes do otherwise: when the store throws, their
  failure bodies carry the error's message as a third property \<^verbatim>\<open>error\<close>.
\<close>

theorem rag_failure_is_generic:
  "rag_failure =
     \<lparr>status = 500, body =
        [(''success'', PBool False),
         (''message'', PStr ''An error occurred while processing your request.'')]\<rparr>
   \<and> question_required =
     \<lparr>status = 400, body = [(''success'', PBool False), (''message'', PStr ''Question is required.'')]\<rparr>
   \<and> (truthy (get_prop req_body ''question'') \<longrightarrow>
        (Debate_find env (rag_query (get_prop req_body ''clientId'')) = Inl e \<longrightarrow>
             chat_rag_memory env req_body =
               (rag_failure,
                [StoreFind (rag_query (get_prop req_body ''clientId'')),
                ConsoleError ''RAG chat error:'' e])
           \<and> chat_rag_faiss env req_body =
               (rag_failure,
                [StoreFind (rag_query (get_prop req_body ''clientId'')),
                ConsoleError ''RAG chat error:'' e]))
      \<and> (Debate_find env (rag_query (get_prop req_body ''clientId'')) = Inr ds \<and> ds \<noteq> [] \<longrightarrow>
           (createDocuments env 2000 200 (debateTexts ds) = Inl e \<longrightarrow>
             chat_rag_memory env req_body =
               (rag_failure,
                [StoreFind (rag_query (get_prop req_body ''clientId'')),
                SplitCall 2000 200 (debateTexts ds),
                ConsoleError ''RAG chat error:'' e]))
         \<and> (createDocuments env 1000 200 (debateTexts ds) = Inl e \<longrightarrow>
             chat_rag_faiss env req_body =
               (rag_failure,
                [StoreFind (rag_query (get_prop req_body ''clientId'')),
                SplitCall 1000 200 (debateTexts ds),
                ConsoleError ''RAG chat error:'' e]))
         \<and> (createDocuments env 2000 200 (debateTexts ds) = Inr sdm \<longrightarrow>
              (fromDocuments env MemoryVectorStore_FastEmbed sdm = Inl e \<longrightarrow>
             chat_rag_memory env req_body =
               (rag_failure,
                [StoreFind (rag_query (get_prop req_body ''clientId'')),
                SplitCall 2000 200 (debateTexts ds),
                EmbedAndIndex MemoryVectorStore_FastEmbed sdm,
                ConsoleError ''RAG chat error:'' e]))
            \<and> (fromDocuments env MemoryVectorStore_FastEmbed sdm = Inr vsm \<longrightarrow>
                 (retrieve env vsm 5 (Obj [(''question'', get_prop req_body ''question'')]) = Inl e \<longrightarrow>
             chat_rag_memory env req_body =
               (rag_failure,
                [StoreFind (rag_query (get_prop req_body ''clientId'')),
                SplitCall 2000 200 (debateTexts ds),
                EmbedAndIndex MemoryVectorStore_FastEmbed sdm,
                Retrieve 5 (Obj [(''question'', get_prop req_body ''question'')]),
                ConsoleError ''RAG chat error:'' e]))
               \<and> (retrieve env vsm 5 (Obj [(''question'', get_prop req_body ''question'')]) = Inr docs
                    \<and> generate env (formatDocumentsAsString env docs) (get_prop req_body ''question'') = Inl e \<longrightarrow>
             chat_rag_memory env req_body =
               (rag_failure,
                [StoreFind (rag_query (get_prop req_body ''clientId'')),
                SplitCall 2000 200 (debateTexts ds),
                EmbedAndIndex MemoryVectorStore_FastEmbed sdm,
                Retrieve 5 (Obj [(''question'', get_prop req_body ''question'')]),
                Generate (formatDocumentsAsString env docs) (get_prop req_body ''question''),
                ConsoleError ''RAG chat error:'' e]))))
         \<and> (createDocuments env 1000 200 (debateTexts ds) = Inr sdf \<longrightarrow>
              (fromDocuments env FaissStore_HuggingFace sdf = Inl e \<longrightarrow>
             chat_rag_faiss env req_body =
               (rag_failure,
                [StoreFind (rag_query (get_prop req_body ''clientId'')),
                SplitCall 1000 200 (debateTexts ds),
                EmbedAndIndex FaissStore_HuggingFace sdf,
                ConsoleError ''RAG chat error:'' e]))
            \<and> (fromDocuments env FaissStore_HuggingFace sdf = Inr vsf \<longrightarrow>
             chat_rag_faiss env req_body =
               (rag_failure,
                [StoreFind (rag_query (get_prop req_body ''clientId'')),
                SplitCall 1000 200 (debateTexts ds),
                EmbedAndIndex FaissStore_HuggingFace sdf,
                ConsoleError ''RAG chat error:'' pipe_TypeError])))))
   \<and> (status (fst (chat_rag_memory env req_body)) \<noteq> 200 \<longrightarrow>
        fst (chat_rag_memory env req_body) = question_required
        \<or> fst (chat_rag_memory env req_body) = rag_failure)
   \<and> (status (fst (chat_rag_faiss env req_body)) \<noteq> 200 \<longrightarrow>
        fst (chat_rag_faiss env req_body) = question_required
        \<or> fst (chat_rag_faiss env req_body) = rag_failure)
   \<and> (Debate_list env = Inl e \<longrightarrow>
        get_debates env =
          (\<lparr>status = 500, body =
             [(''success'', PBool False),
              (''message'', PStr ''An error occurred while fetching debates.''),
              (''error'', PStr (err_message e))]\<rparr>,
           [StoreList, ConsoleError ''Error fetching all debates:'' e]))
   \<and> (ObjectId_isValid env debateId \<and> Debate_findById env debateId = Inl e \<longrightarrow>
        get_debate_by_id env debateId =
          (\<lparr>status = 500, body =
             [(''success'', PBool False),
              (''message'', PStr ''An error occurred while fetching debate details.''),
              (''error'', PStr (err_message e))]\<rparr>,
           [StoreFindById debateId, ConsoleError ''Error fetching debate details:'' e]))
   \<and> (Debate_save env new_debate = Inl e \<and> err_name e = ''ValidationError'' \<longrightarrow>
        post_debates env new_debate =
          (\<lparr>status = 400, body =
             [(''success'', PBool False), (''message'', PStr ''Validation Error''),
              (''error'', PStr (err_message e))]\<rparr>,
           [StoreSave new_debate, ConsoleError ''Error creating debate:'' e]))
   \<and> (Debate_save env new_debate = Inl e \<and> err_name e \<noteq> ''ValidationError'' \<longrightarrow>
        post_debates env new_debate =
          (\<lparr>status = 500, body =
             [(''success'', PBool False),
              (''message'', PStr ''An error occurred while creating the debate.''),
              (''error'', PStr (err_message e))]\<rparr>,
           [StoreSave new_debate, ConsoleError ''Error creating debate:'' e]))"
  by (intro conjI impI; (elim conjE)?;
      ((simp only: rag_failure_def question_required_def; fail)
       | (rule memory_failure_cases faiss_failure_cases crud_failure_cases; assumption)
       | (rule memory_error_bodies faiss_error_bodies; assumption)))

theorem rag_failure_is_generic_witness:
  "truthy (get_prop [(''question'', Str ''Who won?'')] ''question'')
   \<and> Debate_find down_env (rag_query (get_prop [(''question'', Str ''Who won?'')] ''clientId'')) = Inl offline
   \<and> chat_rag_memory down_env [(''question'', Str ''Who won?'')] =
       (rag_failure, [StoreFind EmptyFilter, ConsoleError ''RAG chat error:'' offline])
   \<and> chat_rag_faiss down_env [(''question'', Str ''Who won?'')] =
       (rag_failure, [StoreFind EmptyFilter, ConsoleError ''RAG chat error:'' offline])
   \<and> Debate_find split_fails (rag_query (get_prop [(''question'', Str ''Who won?'')] ''clientId'')) = Inr (store_find sample_debates EmptyFilter)
   \<and> createDocuments split_fails 2000 200 [tax_text, cats_text] = Inl provider_error
   \<and> createDocuments split_fails 1000 200 [tax_text, cats_text] = Inl provider_error
   \<and> chat_rag_memory split_fails [(''question'', Str ''Who won?'')] =
       (rag_failure, [StoreFind EmptyFilter, SplitCall 2000 200 [tax_text, cats_text], ConsoleError ''RAG chat error:'' provider_error])
   \<and> chat_rag_faiss split_fails [(''question'', Str ''Who won?'')] =
       (rag_failure, [StoreFind EmptyFilter, SplitCall 1000 200 [tax_text, cats_text], ConsoleError ''RAG chat error:'' provider_error])
   \<and> Debate_find index_fails (rag_query (get_prop [(''question'', Str ''Who won?'')] ''clientId'')) = Inr (store_find sample_debates EmptyFilter)
   \<and> createDocuments index_fails 2000 200 [tax_text, cats_text] = Inr [tax_text, cats_text]
   \<and> createDocuments index_fails 1000 200 [tax_text, cats_text] = Inr [tax_text, cats_text]
   \<and> fromDocuments index_fails MemoryVectorStore_FastEmbed [tax_text, cats_text] = Inl provider_error
   \<and> fromDocuments index_fails FaissStore_HuggingFace [tax_text, cats_text] = Inl provider_error
   \<and> chat_rag_memory index_fails [(''question'', Str ''Who won?'')] =
       (rag_failure, [StoreFind EmptyFilter, SplitCall 2000 200 [tax_text, cats_text], EmbedAndIndex MemoryVectorStore_FastEmbed [tax_text, cats_text], ConsoleError ''RAG chat error:'' provider_error])
   \<and> chat_rag_faiss index_fails [(''question'', Str ''Who won?'')] =
       (rag_failure, [StoreFind EmptyFilter, SplitCall 1000 200 [tax_text, cats_text], EmbedAndIndex FaissStore_HuggingFace [tax_text, cats_text], ConsoleError ''RAG chat error:'' provider_error])
   \<and> Debate_find (sample_env sample_debates) (rag_query (get_prop [(''question'', Str ''Who won?'')] ''clientId'')) = Inr (store_find sample_debates EmptyFilter)
   \<and> createDocuments (sample_env sample_debates) 2000 200 [tax_text, cats_text] = Inr [tax_text, cats_text]
   \<and> createDocuments (sample_env sample_debates) 1000 200 [tax_text, cats_text] = Inr [tax_text, cats_text]
   \<and> fromDocuments (sample_env sample_debates) FaissStore_HuggingFace [tax_text, cats_text] = Inr [tax_text, cats_text]
   \<and> chat_rag_faiss (sample_env sample_debates) [(''question'', Str ''Who won?'')] =
       (rag_failure, [StoreFind EmptyFilter, SplitCall 1000 200 [tax_text, cats_text], EmbedAndIndex FaissStore_HuggingFace [tax_text, cats_text], ConsoleError ''RAG chat error:'' pipe_TypeError])
   \<and> Debate_find retrieve_fails (rag_query (get_prop [(''question'', Str ''Who won?'')] ''clientId'')) = Inr (store_find sample_debates EmptyFilter)
   \<and> createDocuments retrieve_fails 2000 200 [tax_text, cats_text] = Inr [tax_text, cats_text]
   \<and> createDocuments retrieve_fails 1000 200 [tax_text, cats_text] = Inr [tax_text, cats_text]
   \<and> fromDocuments retrieve_fails MemoryVectorStore_FastEmbed [tax_text, cats_text] = Inr [tax_text, cats_text]
   \<and> retrieve retrieve_fails [tax_text, cats_text] 5 (Obj [(''question'', Str ''Who won?'')]) = Inl provider_error
   \<and> chat_rag_memory retrieve_fails [(''question'', Str ''Who won?'')] =
       (rag_failure, [StoreFind EmptyFilter, SplitCall 2000 200 [tax_text, cats_text], EmbedAndIndex MemoryVectorStore_FastEmbed [tax_text, cats_text], Retrieve 5 (Obj [(''question'', Str ''Who won?'')]), ConsoleError ''RAG chat error:'' provider_error])
   \<and> Debate_find generate_fails (rag_query (get_prop [(''question'', Str ''Who won?'')] ''clientId'')) = Inr (store_find sample_debates EmptyFilter)
   \<and> createDocuments generate_fails 2000 200 [tax_text, cats_text] = Inr [tax_text, cats_text]
   \<and> createDocuments generate_fails 1000 200 [tax_text, cats_text] = Inr [tax_text, cats_text]
   \<and> fromDocuments generate_fails MemoryVectorStore_FastEmbed [tax_text, cats_text] = Inr [tax_text, cats_text]
   \<and> retrieve generate_fails [tax_text, cats_text] 5 (Obj [(''question'', Str ''Who won?'')]) = Inr [tax_text, cats_text]
   \<and> generate generate_fails (tax_text @ newline @ newline @ cats_text) (Str ''Who won?'') = Inl provider_error
   \<and> chat_rag_memory generate_fails [(''question'', Str ''Who won?'')] =
       (rag_failure, [StoreFind EmptyFilter, SplitCall 2000 200 [tax_text, cats_text], EmbedAndIndex MemoryVectorStore_FastEmbed [tax_text, cats_text], Retrieve 5 (Obj [(''question'', Str ''Who won?'')]), Generate (tax_text @ newline @ newline @ cats_text) (Str ''Who won?''), ConsoleError ''RAG chat error:'' provider_error])
   \<and> Debate_list list_fails = Inl provider_error
   \<and> get_debates list_fails =
       (\<lparr>status = 500, body =
          [(''success'', PBool False), (''message'', PStr ''An error occurred while fetching debates.''),
           (''error'', PStr (err_message provider_error))]\<rparr>,
        [StoreList, ConsoleError ''Error fetching all debates:'' provider_error])
   \<and> ObjectId_isValid down_env ''65f0c0ffee65f0c0ffee0001''
   \<and> Debate_findById down_env ''65f0c0ffee65f0c0ffee0001'' = Inl offline
   \<and> get_debate_by_id down_env ''65f0c0ffee65f0c0ffee0001'' =
       (\<lparr>status = 500, body =
          [(''success'', PBool False), (''message'', PStr ''An error occurred while fetching debate details.''),
           (''error'', PStr (err_message offline))]\<rparr>,
        [StoreFindById ''65f0c0ffee65f0c0ffee0001'', ConsoleError ''Error fetching debate details:'' offline])
   \<and> Debate_save save_rejects [(''clientId'', Str ''u1'')] = Inl validation_error
   \<and> err_name validation_error = ''ValidationError''
   \<and> post_debates save_rejects [(''clientId'', Str ''u1'')] =
       (\<lparr>status = 400, body =
          [(''success'', PBool False), (''message'', PStr ''Validation Error''),
           (''error'', PStr (err_message validation_error))]\<rparr>,
        [StoreSave [(''clientId'', Str ''u1'')], ConsoleError ''Error creating debate:'' validation_error])
   \<and> Debate_save down_env [(''clientId'', Str ''u1'')] = Inl offline
   \<and> err_name offline \<noteq> ''ValidationError''
   \<and> post_debates down_env [(''clientId'', Str ''u1'')] =
       (\<lparr>status = 500, body =
          [(''success'', PBool False), (''message'', PStr ''An error occurred while creating the debate.''),
           (''error'', PStr (err_message offline))]\<rparr>,
        [StoreSave [(''clientId'', Str ''u1'')], ConsoleError ''Error creating debate:'' offline])
   \<and> body rag_failure =
       [(''success'', PBool False),
        (''message'', PStr ''An error occurred while processing your request.'')]
   \<and> status (fst (chat_rag_memory generate_fails [(''question'', Str ''Who won?'')])) \<noteq> 200
   \<and> fst (chat_rag_memory generate_fails [(''question'', Str ''Who won?'')]) = rag_failure"
proof -
  have q: "truthy (get_prop [(''question'', Str ''Who won?'')] ''question'')"
    by (simp add: get_prop_def)
  have qv: "get_prop [(''question'', Str ''Who won?'')] ''question'' = Str ''Who won?''"
    by (simp add: get_prop_def)
  have c: "rag_query (get_prop [(''question'', Str ''Who won?'')] ''clientId'') = EmptyFilter"
    by (simp add: get_prop_def rag_query_def)
  have ne: "store_find sample_debates EmptyFilter \<noteq> []"
    by (simp add: sample_store_all)
  have tx: "debateTexts (store_find sample_debates EmptyFilter) = [tax_text, cats_text]"
    by (rule sample_loaded_texts)
  have store_h0: "Debate_find down_env (rag_query (get_prop [(''question'', Str ''Who won?'')] ''clientId'')) = Inl offline"
    by (simp add: down_env_def)
  have store_c0: "chat_rag_memory down_env [(''question'', Str ''Who won?'')] =
       (rag_failure, [StoreFind EmptyFilter, ConsoleError ''RAG chat error:'' offline])"
    using rag_failure_is_generic [where req_body = "[(''question'', Str ''Who won?'')]" and env = "down_env" and e = offline
        and ds = "store_find sample_debates EmptyFilter" and sdm = "[tax_text, cats_text]" and vsm = "[tax_text, cats_text]"
        and docs = "[tax_text, cats_text]" and sdf = "[tax_text, cats_text]" and vsf = "[tax_text, cats_text]" and debateId = "''65f0c0ffee65f0c0ffee0001''"
        and new_debate = "[(''clientId'', Str ''u1'')]"]
      q ne store_h0
    unfolding c qv tx by simp
  have store_c1: "chat_rag_faiss down_env [(''question'', Str ''Who won?'')] =
       (rag_failure, [StoreFind EmptyFilter, ConsoleError ''RAG chat error:'' offline])"
    using rag_failure_is_generic [where req_body = "[(''question'', Str ''Who won?'')]" and env = "down_env" and e = offline
        and ds = "store_find sample_debates EmptyFilter" and sdm = "[tax_text, cats_text]" and vsm = "[tax_text, cats_text]"
        and docs = "[tax_text, cats_text]" and sdf = "[tax_text, cats_text]" and vsf = "[tax_text, cats_text]" and debateId = "''65f0c0ffee65f0c0ffee0001''"
        and new_debate = "[(''clientId'', Str ''u1'')]"]
      q ne store_h0
    unfolding c qv tx by simp
  have split_h0: "Debate_find split_fails (rag_query (get_prop [(''question'', Str ''Who won?'')] ''clientId'')) = Inr (store_find sample_debates EmptyFilter)"
    by (simp add: split_fails_def sample_env_def get_prop_def rag_query_def)
  have split_h1: "createDocuments split_fails 2000 200 [tax_text, cats_text] = Inl provider_error"
    by (simp add: split_fails_def)
  have split_h2: "createDocuments split_fails 1000 200 [tax_text, cats_text] = Inl provider_error"
    by (simp add: split_fails_def)
  have split_c0: "chat_rag_memory split_fails [(''question'', Str ''Who won?'')] =
       (rag_failure, [StoreFind EmptyFilter, SplitCall 2000 200 [tax_text, cats_text], ConsoleError ''RAG chat error:'' provider_error])"
    using rag_failure_is_generic [where req_body = "[(''question'', Str ''Who won?'')]" and env = "split_fails" and e = provider_error
        and ds = "store_find sample_debates EmptyFilter" and sdm = "[tax_text, cats_text]" and vsm = "[tax_text, cats_text]"
        and docs = "[tax_text, cats_text]" and sdf = "[tax_text, cats_text]" and vsf = "[tax_text, cats_text]" and debateId = "''65f0c0ffee65f0c0ffee0001''"
        and new_debate = "[(''clientId'', Str ''u1'')]"]
      q ne split_h0 split_h1 split_h2
    unfolding c qv tx by simp
  have split_c1: "chat_rag_faiss split_fails [(''question'', Str ''Who won?'')] =
       (rag_failure, [StoreFind EmptyFilter, SplitCall 1000 200 [tax_text, cats_text], ConsoleError ''RAG chat error:'' provider_error])"
    using rag_failure_is_generic [where req_body = "[(''question'', Str ''Who won?'')]" and env = "split_fails" and e = provider_error
        and ds = "store_find sample_debates EmptyFilter" and sdm = "[tax_text, cats_text]" and vsm = "[tax_text, cats_text]"
        and docs = "[tax_text, cats_text]" and sdf = "[tax_text, cats_text]" and vsf = "[tax_text, cats_text]" and debateId = "''65f0c0ffee65f0c0ffee0001''"
        and new_debate = "[(''clientId'', Str ''u1'')]"]
      q ne split_h0 split_h1 split_h2
    unfolding c qv tx by simp
  have index_h0: "Debate_find index_fails (rag_query (get_prop [(''question'', Str ''Who won?'')] ''clientId'')) = Inr (store_find sample_debates EmptyFilter)"
    by (simp add: index_fails_def sample_env_def get_prop_def rag_query_def)
  have index_h1: "createDocuments index_fails 2000 200 [tax_text, cats_text] = Inr [tax_text, cats_text]"
    by (simp add: index_fails_def sample_env_def sample_texts_chunked)
  have index_h2: "createDocuments index_fails 1000 200 [tax_text, cats_text] = Inr [tax_text, cats_text]"
    by (simp add: index_fails_def sample_env_def sample_texts_chunked_1000)
  have index_h3: "fromDocuments index_fails MemoryVectorStore_FastEmbed [tax_text, cats_text] = Inl provider_error"
    by (simp add: index_fails_def)
  have index_h4: "fromDocuments index_fails FaissStore_HuggingFace [tax_text, cats_text] = Inl provider_error"
    by (simp add: index_fails_def)
  have index_c0: "chat_rag_memory index_fails [(''question'', Str ''Who won?'')] =
       (rag_failure, [StoreFind EmptyFilter, SplitCall 2000 200 [tax_text, cats_text], EmbedAndIndex MemoryVectorStore_FastEmbed [tax_text, cats_text], ConsoleError ''RAG chat error:'' provider_error])"
    using rag_failure_is_generic [where req_body = "[(''question'', Str ''Who won?'')]" and env = "index_fails" and e = provider_error
        and ds = "store_find sample_debates EmptyFilter" and sdm = "[tax_text, cats_text]" and vsm = "[tax_text, cats_text]"
        and docs = "[tax_text, cats_text]" and sdf = "[tax_text, cats_text]" and vsf = "[tax_text, cats_text]" and debateId = "''65f0c0ffee65f0c0ffee0001''"
        and new_debate = "[(''clientId'', Str ''u1'')]"]
      q ne index_h0 index_h1 index_h2 index_h3 index_h4
    unfolding c qv tx by simp
  have index_c1: "chat_rag_faiss index_fails [(''question'', Str ''Who won?'')] =
       (rag_failure, [StoreFind EmptyFilter, SplitCall 1000 200 [tax_text, cats_text], EmbedAndIndex FaissStore_HuggingFace [tax_text, cats_text], ConsoleError ''RAG chat error:'' provider_error])"
    using rag_failure_is_generic [where req_body = "[(''question'', Str ''Who won?'')]" and env = "index_fails" and e = provider_error
        and ds = "store_find sample_debates EmptyFilter" and sdm = "[tax_text, cats_text]" and vsm = "[tax_text, cats_text]"
        and docs = "[tax_text, cats_text]" and sdf = "[tax_text, cats_text]" and vsf = "[tax_text, cats_text]" and debateId = "''65f0c0ffee65f0c0ffee0001''"
        and new_debate = "[(''clientId'', Str ''u1'')]"]
      q ne index_h0 index_h1 index_h2 index_h3 index_h4
    unfolding c qv tx by simp
  have pipe_h0: "Debate_find (sample_env sample_debates) (rag_query (get_prop [(''question'', Str ''Who won?'')] ''clientId'')) = Inr (store_find sample_debates EmptyFilter)"
    by (simp add: sample_env_def sample_env_def get_prop_def rag_query_def)
  have pipe_h1: "createDocuments (sample_env sample_debates) 2000 200 [tax_text, cats_text] = Inr [tax_text, cats_text]"
    by (simp add: sample_env_def sample_env_def sample_texts_chunked)
  have pipe_h2: "createDocuments (sample_env sample_debates) 1000 200 [tax_text, cats_text] = Inr [tax_text, cats_text]"
    by (simp add: sample_env_def sample_env_def sample_texts_chunked_1000)
  have pipe_h3: "fromDocuments (sample_env sample_debates) FaissStore_HuggingFace [tax_text, cats_text] = Inr [tax_text, cats_text]"
    by (simp add: sample_env_def sample_env_def)
  have pipe_c0: "chat_rag_faiss (sample_env sample_debates) [(''question'', Str ''Who won?'')] =
       (rag_failure, [StoreFind EmptyFilter, SplitCall 1000 200 [tax_text, cats_text], EmbedAndIndex FaissStore_HuggingFace [tax_text, cats_text], ConsoleError ''RAG chat error:'' pipe_TypeError])"
    using rag_failure_is_generic [where req_body = "[(''question'', Str ''Who won?'')]" and env = "sample_env sample_debates" and e = pipe_TypeError
        and ds = "store_find sample_debates EmptyFilter" and sdm = "[tax_text, cats_text]" and vsm = "[tax_text, cats_text]"
        and docs = "[tax_text, cats_text]" and sdf = "[tax_text, cats_text]" and vsf = "[tax_text, cats_text]" and debateId = "''65f0c0ffee65f0c0ffee0001''"
        and new_debate = "[(''clientId'', Str ''u1'')]"]
      q ne pipe_h0 pipe_h1 pipe_h2 pipe_h3
    unfolding c qv tx by simp
  have retrieve_h0: "Debate_find retrieve_fails (rag_query (get_prop [(''question'', Str ''Who won?'')] ''clientId'')) = Inr (store_find sample_debates EmptyFilter)"
    by (simp add: retrieve_fails_def sample_env_def get_prop_def rag_query_def)
  have retrieve_h1: "createDocuments retrieve_fails 2000 200 [tax_text, cats_text] = Inr [tax_text, cats_text]"
    by (simp add: retrieve_fails_def sample_env_def sample_texts_chunked)
  have retrieve_h2: "createDocuments retrieve_fails 1000 200 [tax_text, cats_text] = Inr [tax_text, cats_text]"
    by (simp add: retrieve_fails_def sample_env_def sample_texts_chunked_1000)
  have retrieve_h3: "fromDocuments retrieve_fails MemoryVectorStore_FastEmbed [tax_text, cats_text] = Inr [tax_text, cats_text]"
    by (simp add: retrieve_fails_def sample_env_def)
  have retrieve_h4: "retrieve retrieve_fails [tax_text, cats_text] 5 (Obj [(''question'', Str ''Who won?'')]) = Inl provider_error"
    by (simp add: retrieve_fails_def)
  have retrieve_c0: "chat_rag_memory retrieve_fails [(''question'', Str ''Who won?'')] =
       (rag_failure, [StoreFind EmptyFilter, SplitCall 2000 200 [tax_text, cats_text], EmbedAndIndex MemoryVectorStore_FastEmbed [tax_text, cats_text], Retrieve 5 (Obj [(''question'', Str ''Who won?'')]), ConsoleError ''RAG chat error:'' provider_error])"
    using rag_failure_is_generic [where req_body = "[(''question'', Str ''Who won?'')]" and env = "retrieve_fails" and e = provider_error
        and ds = "store_find sample_debates EmptyFilter" and sdm = "[tax_text, cats_text]" and vsm = "[tax_text, cats_text]"
        and docs = "[tax_text, cats_text]" and sdf = "[tax_text, cats_text]" and vsf = "[tax_text, cats_text]" and debateId = "''65f0c0ffee65f0c0ffee0001''"
        and new_debate = "[(''clientId'', Str ''u1'')]"]
      q ne retrieve_h0 retrieve_h1 retrieve_h2 retrieve_h3 retrieve_h4
    unfolding c qv tx by simp
  have generate_h0: "Debate_find generate_fails (rag_query (get_prop [(''question'', Str ''Who won?'')] ''clientId'')) = Inr (store_find sample_debates EmptyFilter)"
    by (simp add: generate_fails_def sample_env_def get_prop_def rag_query_def)
  have generate_h1: "createDocuments generate_fails 2000 200 [tax_text, cats_text] = Inr [tax_text, cats_text]"
    by (simp add: generate_fails_def sample_env_def sample_texts_chunked)
  have generate_h2: "createDocuments generate_fails 1000 200 [tax_text, cats_text] = Inr [tax_text, cats_text]"
    by (simp add: generate_fails_def sample_env_def sample_texts_chunked_1000)
  have generate_h3: "fromDocuments generate_fails MemoryVectorStore_FastEmbed [tax_text, cats_text] = Inr [tax_text, cats_text]"
    by (simp add: generate_fails_def sample_env_def)
  have generate_h4: "retrieve generate_fails [tax_text, cats_text] 5 (Obj [(''question'', Str ''Who won?'')]) = Inr [tax_text, cats_text]"
    by (simp add: generate_fails_def sample_env_def)
  have generate_h5: "formatDocumentsAsString generate_fails [tax_text, cats_text] = tax_text @ newline @ newline @ cats_text"
    by (simp add: generate_fails_def sample_env_def down_env_def)
  have generate_h6: "generate generate_fails (tax_text @ newline @ newline @ cats_text) (Str ''Who won?'') = Inl provider_error"
    by (simp add: generate_fails_def)
  have generate_c0: "chat_rag_memory generate_fails [(''question'', Str ''Who won?'')] =
       (rag_failure, [StoreFind EmptyFilter, SplitCall 2000 200 [tax_text, cats_text], EmbedAndIndex MemoryVectorStore_FastEmbed [tax_text, cats_text], Retrieve 5 (Obj [(''question'', Str ''Who won?'')]), Generate (tax_text @ newline @ newline @ cats_text) (Str ''Who won?''), ConsoleError ''RAG chat error:'' provider_error])"
    using rag_failure_is_generic [where req_body = "[(''question'', Str ''Who won?'')]" and env = "generate_fails" and e = provider_error
        and ds = "store_find sample_debates EmptyFilter" and sdm = "[tax_text, cats_text]" and vsm = "[tax_text, cats_text]"
        and docs = "[tax_text, cats_text]" and sdf = "[tax_text, cats_text]" and vsf = "[tax_text, cats_text]" and debateId = "''65f0c0ffee65f0c0ffee0001''"
        and new_debate = "[(''clientId'', Str ''u1'')]"]
      q ne generate_h0 generate_h1 generate_h2 generate_h3 generate_h4 generate_h5 generate_h6
    unfolding c qv tx by simp
  have list_h0: "Debate_list list_fails = Inl provider_error"
    by (simp add: list_fails_def)
  have list_c0: "get_debates list_fails =
       (\<lparr>status = 500, body =
          [(''success'', PBool False), (''message'', PStr ''An error occurred while fetching debates.''),
           (''error'', PStr (err_message provider_error))]\<rparr>,
        [StoreList, ConsoleError ''Error fetching all debates:'' provider_error])"
    using rag_failure_is_generic [where req_body = "[(''question'', Str ''Who won?'')]" and env = "list_fails" and e = provider_error
        and ds = "store_find sample_debates EmptyFilter" and sdm = "[tax_text, cats_text]" and vsm = "[tax_text, cats_text]"
        and docs = "[tax_text, cats_text]" and sdf = "[tax_text, cats_text]" and vsf = "[tax_text, cats_text]" and debateId = "''65f0c0ffee65f0c0ffee0001''"
        and new_debate = "[(''clientId'', Str ''u1'')]"]
      q ne list_h0
    unfolding c qv tx by simp
  have byid_h0: "ObjectId_isValid down_env ''65f0c0ffee65f0c0ffee0001''"
    by (simp add: down_env_def)
  have byid_h1: "Debate_findById down_env ''65f0c0ffee65f0c0ffee0001'' = Inl offline"
    by (simp add: down_env_def)
  have byid_c0: "get_debate_by_id down_env ''65f0c0ffee65f0c0ffee0001'' =
       (\<lparr>status = 500, body =
          [(''success'', PBool False), (''message'', PStr ''An error occurred while fetching debate details.''),
           (''error'', PStr (err_message offline))]\<rparr>,
        [StoreFindById ''65f0c0ffee65f0c0ffee0001'', ConsoleError ''Error fetching debate details:'' offline])"
    using rag_failure_is_generic [where req_body = "[(''question'', Str ''Who won?'')]" and env = "down_env" and e = offline
        and ds = "store_find sample_debates EmptyFilter" and sdm = "[tax_text, cats_text]" and vsm = "[tax_text, cats_text]"
        and docs = "[tax_text, cats_text]" and sdf = "[tax_text, cats_text]" and vsf = "[tax_text, cats_text]" and debateId = "''65f0c0ffee65f0c0ffee0001''"
        and new_debate = "[(''clientId'', Str ''u1'')]"]
      q ne byid_h0 byid_h1
    unfolding c qv tx by simp
  have invalid_h0: "Debate_save save_rejects [(''clientId'', Str ''u1'')] = Inl validation_error"
    by (simp add: save_rejects_def)
  have invalid_h1: "err_name validation_error = ''ValidationError''"
    by (simp add: validation_error_def)
  have invalid_c0: "post_debates save_rejects [(''clientId'', Str ''u1'')] =
       (\<lparr>status = 400, body =
          [(''success'', PBool False), (''message'', PStr ''Validation Error''),
           (''error'', PStr (err_message validation_error))]\<rparr>,
        [StoreSave [(''clientId'', Str ''u1'')], ConsoleError ''Error creating debate:'' validation_error])"
    using rag_failure_is_generic [where req_body = "[(''question'', Str ''Who won?'')]" and env = "save_rejects" and e = validation_error
        and ds = "store_find sample_debates EmptyFilter" and sdm = "[tax_text, cats_text]" and vsm = "[tax_text, cats_text]"
        and docs = "[tax_text, cats_text]" and sdf = "[tax_text, cats_text]" and vsf = "[tax_text, cats_text]" and debateId = "''65f0c0ffee65f0c0ffee0001''"
        and new_debate = "[(''clientId'', Str ''u1'')]"]
      q ne invalid_h0 invalid_h1
    unfolding c qv tx by simp
  have save_h0: "Debate_save down_env [(''clientId'', Str ''u1'')] = Inl offline"
    by (simp add: down_env_def)
  have save_h1: "err_name offline \<noteq> ''ValidationError''"
    by (simp add: offline_def)
  have save_c0: "post_debates down_env [(''clientId'', Str ''u1'')] =
       (\<lparr>status = 500, body =
          [(''success'', PBool False), (''message'', PStr ''An error occurred while creating the debate.''),
           (''error'', PStr (err_message offline))]\<rparr>,
        [StoreSave [(''clientId'', Str ''u1'')], ConsoleError ''Error creating debate:'' offline])"
    using rag_failure_is_generic [where req_body = "[(''question'', Str ''Who won?'')]" and env = "down_env" and e = offline
        and ds = "store_find sample_debates EmptyFilter" and sdm = "[tax_text, cats_text]" and vsm = "[tax_text, cats_text]"
        and docs = "[tax_text, cats_text]" and sdf = "[tax_text, cats_text]" and vsf = "[tax_text, cats_text]" and debateId = "''65f0c0ffee65f0c0ffee0001''"
        and new_debate = "[(''clientId'', Str ''u1'')]"]
      q ne save_h0 save_h1
    unfolding c qv tx by simp
  have pin: "body rag_failure =
       [(''success'', PBool False),
        (''message'', PStr ''An error occurred while processing your request.'')]"
    by (simp add: rag_failure_def)
  have st: "status (fst (chat_rag_memory generate_fails [(''question'', Str ''Who won?'')])) \<noteq> 200"
    by (simp add: generate_c0 rag_failure_def)
  have fs: "fst (chat_rag_memory generate_fails [(''question'', Str ''Who won?'')]) = rag_failure"
    by (simp add: generate_c0)
  show ?thesis
    by (intro conjI) (rule q store_c0 store_c1 store_h0 split_c0 split_c1 split_h0 split_h1 split_h2 index_c0 index_c1 index_h0 index_h1 index_h2 index_h3 index_h4 pipe_c0 pipe_h0 pipe_h1 pipe_h2 pipe_h3 retrieve_c0 retrieve_h0 retrieve_h1 retrieve_h2 retrieve_h3 retrieve_h4 generate_c0 generate_h0 generate_h1 generate_h2 generate_h3 generate_h4 generate_h6 list_c0 list_h0 byid_c0 byid_h0 byid_h1 invalid_c0 invalid_h0 invalid_h1 save_c0 save_h0 save_h1 pin st fs)+
qed

text \<open>
  So the claim, stated of every route, fails on the debate routes: with the store
  unreachable, \<^verbatim>\<open>GET /api/debates\<close> returns the driver's message in the body.
\<close>

theorem crud_failure_leaks_message_counterexample:
  "get_debates down_env =
     (\<lparr>status = 500, body =
        [(''success'', PBool False),
         (''message'', PStr ''An error occurred while fetching debates.''),
         (''error'', PStr ''connect ECONNREFUSED 127.0.0.1:27017'')]\<rparr>,
      [StoreList, ConsoleError ''Error fetching all debates:'' offline])
   \<and> err_message offline = ''connect ECONNREFUSED 127.0.0.1:27017''"
  by (simp add: get_debates_def run_defs down_env_def offline_def)

end
